theory Spec2Isabelle
  imports Main
begin

section \<open>Data model\<close>

text \<open>
  The service \<^verbatim>\<open>apps/persons/services.py\<close> works on four Django models
  (\<^verbatim>\<open>Person\<close>, \<^verbatim>\<open>PersonGroup\<close>, \<^verbatim>\<open>ChangeSet\<close>, \<^verbatim>\<open>PersonHistory\<close>) through the ORM.
  A table is the list of its rows in insertion order; a column that may hold SQL NULL is
  an \<open>option\<close>, and Python's \<^verbatim>\<open>None\<close> is \<open>None\<close>. Strings are byte strings
  (the UTF-8 text of the Python \<^verbatim>\<open>str\<close>): the service only compares strings for
  equality and tests them for emptiness, and both agree on the encoded text.
  Timestamps are integers (ticks of the clock behind \<^verbatim>\<open>timezone.now()\<close>).
\<close>

datatype error = KeyError string | DoesNotExist | TypeError

text \<open>
  \<^verbatim>\<open>person_data: Dict[str, Any]\<close>. A key that is absent maps to \<open>None\<close>, a key
  bound to Python's \<^verbatim>\<open>None\<close> maps to \<open>Some None\<close>, a key bound to a string \<open>s\<close>
  maps to \<open>Some (Some s)\<close>. The birth date is carried as its text; the service never
  looks into it.
\<close>

type_synonym person_data = "string \<rightharpoonup> string option"

text \<open>
  Modelled from the spec: the attribute columns shared by \<^verbatim>\<open>Person\<close> and
  \<^verbatim>\<open>PersonHistory\<close> (\<^verbatim>\<open>models.py\<close> is missing). The same nine keys make up the
  dictionary that \<^verbatim>\<open>get_person_as_of\<close> returns, which is the plain record.
\<close>

record person_state =
  group_id :: int
  last_name :: "string option"
  first_name :: "string option"
  middle_name :: "string option"
  birth_date :: "string option"
  gender :: "string option"
  address :: "string option"
  phone :: "string option"
  email :: "string option"

text \<open>Modelled from the spec: the \<^verbatim>\<open>Person\<close> model (\<^verbatim>\<open>models.py\<close> is missing).\<close>

record person = person_state +
  person_id :: int
  change_id :: "int option"
  created_at :: int
  is_current :: bool

text \<open>Modelled from the spec: the \<^verbatim>\<open>PersonHistory\<close> model (\<^verbatim>\<open>models.py\<close> is missing).\<close>

record person_history = person_state +
  history_id :: int
  history_change_id :: "int option"
  valid_from :: int
  valid_to :: int

text \<open>
  Modelled from the spec: the \<^verbatim>\<open>ChangeSet\<close> model (\<^verbatim>\<open>models.py\<close> is missing). Its
  timestamp column is stamped by the storage layer and never read by the service.
\<close>

record change_set =
  cs_id :: int
  author :: "string option"
  reason :: "string option"

text \<open>
  The database: the four tables and the sequences that hand out the automatic primary
  keys. Modelled from the spec: \<^verbatim>\<open>PersonGroup\<close> has no column but its identifier
  (\<^verbatim>\<open>models.py\<close> is missing), so its table is the list of identifiers.
\<close>

record store =
  person_groups :: "int list"
  change_sets :: "change_set list"
  persons :: "person list"
  person_histories :: "person_history list"
  next_group_id :: int
  next_change_id :: int
  next_person_id :: int
  next_history_id :: int

definition empty_store :: store where
  "empty_store = \<lparr>person_groups = [], change_sets = [], persons = [], person_histories = [],
     next_group_id = 1, next_change_id = 1, next_person_id = 1, next_history_id = 1\<rparr>"

section \<open>Python and ORM primitives\<close>

text \<open>\<^verbatim>\<open>d[k]\<close>: raises \<^verbatim>\<open>KeyError\<close> on an absent key.\<close>

definition subscript :: "person_data \<Rightarrow> string \<Rightarrow> error + string option" where
  "subscript d k = (case d k of None \<Rightarrow> Inl (KeyError k) | Some v \<Rightarrow> Inr v)"

text \<open>\<^verbatim>\<open>d.get(k)\<close>: \<^verbatim>\<open>None\<close> on an absent key.\<close>

definition dict_get :: "person_data \<Rightarrow> string \<Rightarrow> string option" where
  "dict_get d k = (case d k of None \<Rightarrow> None | Some v \<Rightarrow> v)"

text \<open>Truth value of a string or \<^verbatim>\<open>None\<close>: \<^verbatim>\<open>None\<close> and \<^verbatim>\<open>''\<close> are false.\<close>

definition truthy :: "string option \<Rightarrow> bool" where
  "truthy v = (case v of None \<Rightarrow> False | Some t \<Rightarrow> t \<noteq> [])"

text \<open>
  The string that line 40 compares the gender with is the single letter CYRILLIC CAPITAL
  LETTER EM, U+041C (bytes D0 9C), not the Latin letter M.
\<close>

definition gender_male :: string where
  "gender_male = [CHR 0xD0, CHR 0x9C]"

text \<open>
  \<^verbatim>\<open>.order_by(key)\<close> is a stable sort of the rows by the key; \<^verbatim>\<open>.order_by('-key')\<close> sorts
  by the negated key. The database leaves the order of rows with equal keys open; here
  they stay in the order of the table. \<^verbatim>\<open>.first()\<close> is the first row, or \<^verbatim>\<open>None\<close>.
\<close>

definition order_by :: "('a \<Rightarrow> int) \<Rightarrow> 'a list \<Rightarrow> 'a list" where
  "order_by key rows = sort_key key rows"

definition first_row :: "'a list \<Rightarrow> 'a option" where
  "first_row rows = (case rows of [] \<Rightarrow> None | r # _ \<Rightarrow> Some r)"

section \<open>PersonService\<close>

text \<open>\<^verbatim>\<open>ChangeSet.objects.create(author=author, reason=reason)\<close>\<close>

definition create_change_set :: "string option \<Rightarrow> string option \<Rightarrow> store \<Rightarrow> change_set \<times> store" where
  "create_change_set a r s =
     (let c = \<lparr>cs_id = next_change_id s, author = a, reason = r\<rparr>
      in (c, s\<lparr>change_sets := change_sets s @ [c], next_change_id := next_change_id s + 1\<rparr>))"

text \<open>
  The disjunction \<^verbatim>\<open>contact_q\<close> built in lines 43 to 49: the address is always compared,
  the phone and the e-mail only when the incoming value is truthy. A \<^verbatim>\<open>None\<close> on the
  right of an ORM equality is \<^verbatim>\<open>IS NULL\<close>, and a NULL column never equals a string, so
  each test is equality of options.
\<close>

definition contact_q :: "string option \<Rightarrow> string option \<Rightarrow> string option \<Rightarrow> person \<Rightarrow> bool" where
  "contact_q addr ph em r =
     (address r = addr \<or> (truthy ph \<and> phone r = ph) \<or> (truthy em \<and> email r = em))"

definition find_matching_group :: "person_data \<Rightarrow> store \<Rightarrow> error + int option" where
  "find_matching_group person_data s =
     (case subscript person_data ''gender'' of Inl e \<Rightarrow> Inl e | Inr g \<Rightarrow>
     (case subscript person_data ''first_name'' of Inl e \<Rightarrow> Inl e | Inr fn \<Rightarrow>
     (let qs = filter (\<lambda>r. is_current r \<and> gender r = g \<and> first_name r = fn) (persons s);
          mn = dict_get person_data ''middle_name'';
          qs = (if mn = None then filter (\<lambda>r. middle_name r = None) qs
                else filter (\<lambda>r. middle_name r = mn) qs)
      in (case (if g = Some gender_male
                then (case subscript person_data ''last_name'' of Inl e \<Rightarrow> Inl e
                      | Inr ln \<Rightarrow> Inr (filter (\<lambda>r. last_name r = ln) qs))
                else Inr qs) of Inl e \<Rightarrow> Inl e | Inr qs \<Rightarrow>
         (case subscript person_data ''address'' of Inl e \<Rightarrow> Inl e | Inr addr \<Rightarrow>
         (let ph = dict_get person_data ''phone'';
              em = dict_get person_data ''email''
          in Inr (first_row (map group_id
                    (order_by group_id (filter (contact_q addr ph em) qs))))))))))"

text \<open>\<^verbatim>\<open>PersonGroup.objects.get(id=group_id)\<close>: raises \<^verbatim>\<open>DoesNotExist\<close> when no row has the id.\<close>

definition get_group :: "int \<Rightarrow> store \<Rightarrow> error + int \<times> store" where
  "get_group g s = (if g \<in> set (person_groups s) then Inr (g, s) else Inl DoesNotExist)"

text \<open>\<^verbatim>\<open>PersonGroup.objects.create()\<close>\<close>

definition create_group :: "store \<Rightarrow> int \<times> store" where
  "create_group s =
     (next_group_id s,
      s\<lparr>person_groups := person_groups s @ [next_group_id s], next_group_id := next_group_id s + 1\<rparr>)"

text \<open>
  Modelled from the spec: the fields of \<^verbatim>\<open>Person\<close> that a snapshot may set, the eight
  attributes (\<^verbatim>\<open>models.py\<close> is missing).
\<close>

definition person_attributes :: "string list" where
  "person_attributes = [''last_name'', ''first_name'', ''middle_name'', ''birth_date'',
                        ''gender'', ''address'', ''phone'', ''email'']"

text \<open>
  \<^verbatim>\<open>Person.objects.create(group=group, change=change_set, created_at=now_ts,
  is_current=True, **person_data)\<close>. The dictionary is passed as further keywords after the
  four that the call names: a key \<^verbatim>\<open>group\<close>, \<^verbatim>\<open>change\<close>, \<^verbatim>\<open>created_at\<close> or \<^verbatim>\<open>is_current\<close>
  repeats a keyword, and a key that names no field is refused by the constructor of the
  model; both raise \<^verbatim>\<open>TypeError\<close>. So the call raises unless every key of the dictionary
  is the name of an attribute (a key that names the primary key or a raw foreign-key
  column is treated like any other unexpected keyword). Otherwise each attribute column
  takes the value the dictionary binds to its name, and the row is created at \<open>now_ts\<close>.
  Modelled from the spec: a column whose key is absent is NULL, and \<^verbatim>\<open>created_at\<close> is
  stored as given (the defaults of the columns are declared in \<^verbatim>\<open>models.py\<close>, which is
  missing).
\<close>

definition insert_person :: "int \<Rightarrow> change_set \<Rightarrow> int \<Rightarrow> person_data \<Rightarrow> store \<Rightarrow> error + person \<times> store" where
  "insert_person g c now_ts person_data s =
     (if \<not> dom person_data \<subseteq> set person_attributes then Inl TypeError
      else
      let p = \<lparr>group_id = g,
                last_name = dict_get person_data ''last_name'',
                first_name = dict_get person_data ''first_name'',
                middle_name = dict_get person_data ''middle_name'',
                birth_date = dict_get person_data ''birth_date'',
                gender = dict_get person_data ''gender'',
                address = dict_get person_data ''address'',
                phone = dict_get person_data ''phone'',
                email = dict_get person_data ''email'',
                person_id = next_person_id s,
                change_id = Some (cs_id c),
                created_at = now_ts,
                is_current = True\<rparr>
      in Inr (p, s\<lparr>persons := persons s @ [p], next_person_id := next_person_id s + 1\<rparr>))"

text \<open>
  The query of lines 87 to 93: the most recently created current row of the group other
  than the row just inserted.
\<close>

definition previous_current :: "int \<Rightarrow> person \<Rightarrow> store \<Rightarrow> person option" where
  "previous_current g p s =
     first_row (order_by (\<lambda>r. - created_at r)
       (filter (\<lambda>r. group_id r = g \<and> is_current r \<and> person_id r \<noteq> person_id p) (persons s)))"

text \<open>\<^verbatim>\<open>PersonHistory.objects.create(...)\<close> of lines 95 to 108.\<close>

definition insert_history :: "int \<Rightarrow> person \<Rightarrow> person \<Rightarrow> int \<Rightarrow> store \<Rightarrow> store" where
  "insert_history g p prev now_ts s =
     (let h = \<lparr>group_id = g,
                last_name = last_name prev,
                first_name = first_name prev,
                middle_name = middle_name prev,
                birth_date = birth_date prev,
                gender = gender prev,
                address = address prev,
                phone = phone prev,
                email = email prev,
                history_id = next_history_id s,
                history_change_id = (case change_id p of Some c \<Rightarrow> Some c | None \<Rightarrow> change_id prev),
                valid_from = created_at prev,
                valid_to = now_ts\<rparr>
      in s\<lparr>person_histories := person_histories s @ [h], next_history_id := next_history_id s + 1\<rparr>)"

text \<open>
  \<^verbatim>\<open>prev.is_current = False; prev.save(update_fields=['is_current'])\<close>: an update of the
  column in the row whose primary key is \<^verbatim>\<open>prev.id\<close>.
\<close>

definition retire :: "person \<Rightarrow> store \<Rightarrow> store" where
  "retire prev s =
     s\<lparr>persons := map (\<lambda>r. if person_id r = person_id prev then r\<lparr>is_current := False\<rparr> else r)
                      (persons s)\<rparr>"

text \<open>
  \<^verbatim>\<open>create_person\<close> runs under \<^verbatim>\<open>transaction.atomic\<close>: an exception rolls every write
  back, so an error carries no store. \<^verbatim>\<open>timezone.now()\<close> is the argument \<open>now_ts\<close>.
  A model instance is always true, so \<^verbatim>\<open>if not change_set\<close> and \<^verbatim>\<open>if prev\<close> test
  for \<^verbatim>\<open>None\<close>; \<^verbatim>\<open>if group_id\<close> is false for \<^verbatim>\<open>None\<close> and for \<open>0\<close>.
\<close>

definition create_person :: "person_data \<Rightarrow> change_set option \<Rightarrow> int \<Rightarrow> store \<Rightarrow> error + person \<times> store" where
  "create_person person_data change_set now_ts s =
     (let (cs, s1) = (case change_set of
                        None \<Rightarrow> create_change_set (Some ''system'') (Some ''API person creation'') s
                      | Some c \<Rightarrow> (c, s))
      in (case find_matching_group person_data s1 of Inl e \<Rightarrow> Inl e | Inr gid \<Rightarrow>
         (case (case gid of
                  None \<Rightarrow> Inr (create_group s1)
                | Some g \<Rightarrow> if g \<noteq> 0 then get_group g s1 else Inr (create_group s1)) of
            Inl e \<Rightarrow> Inl e
          | Inr (grp, s2) \<Rightarrow>
             (case insert_person grp cs now_ts person_data s2 of
                Inl e \<Rightarrow> Inl e
              | Inr (p, s3) \<Rightarrow>
                 (case previous_current grp p s3 of
                    None \<Rightarrow> Inr (p, s3)
                  | Some prev \<Rightarrow> Inr (p, retire prev (insert_history grp p prev now_ts s3)))))))"

text \<open>\<^verbatim>\<open>get_person_as_of\<close>, lines 154 to 196.\<close>

definition get_person_as_of :: "int \<Rightarrow> int \<Rightarrow> store \<Rightarrow> person_state option" where
  "get_person_as_of g timestamp s =
     (case first_row (order_by (\<lambda>r. - created_at r)
             (filter (\<lambda>r. group_id r = g \<and> is_current r \<and> created_at r \<le> timestamp) (persons s))) of
        Some current \<Rightarrow>
          Some \<lparr>group_id = group_id current,
                last_name = last_name current,
                first_name = first_name current,
                middle_name = middle_name current,
                birth_date = birth_date current,
                gender = gender current,
                address = address current,
                phone = phone current,
                email = email current\<rparr>
      | None \<Rightarrow>
         (case first_row (order_by (\<lambda>h. - valid_from h)
                 (filter (\<lambda>h. group_id h = g \<and> valid_from h \<le> timestamp \<and> valid_to h > timestamp)
                    (person_histories s))) of
            Some hist \<Rightarrow>
              Some \<lparr>group_id = group_id hist,
                    last_name = last_name hist,
                    first_name = first_name hist,
                    middle_name = middle_name hist,
                    birth_date = birth_date hist,
                    gender = gender hist,
                    address = address hist,
                    phone = phone hist,
                    email = email hist\<rparr>
          | None \<Rightarrow> None))"

section \<open>The matching predicate in the words of the specification\<close>

text \<open>
  Section 4.1 of the specification, items 1 to 5: the candidate is current; gender and
  first name are equal; the middle names are equal, absent only equal to absent; for a
  male snapshot the last names are equal.
\<close>

definition spec_non_contact_conditions :: "person_data \<Rightarrow> person \<Rightarrow> bool" where
  "spec_non_contact_conditions pd r =
     (is_current r
      \<and> Some (gender r) = pd ''gender''
      \<and> Some (first_name r) = pd ''first_name''
      \<and> middle_name r = dict_get pd ''middle_name''
      \<and> (pd ''gender'' = Some (Some gender_male) \<longrightarrow> Some (last_name r) = pd ''last_name''))"

text \<open>
  Item 6: the addresses are equal, or the snapshot has a phone that is not empty and
  the phones are equal, or the snapshot has an e-mail that is not empty and the e-mails
  are equal.
\<close>

definition spec_contact_condition :: "person_data \<Rightarrow> person \<Rightarrow> bool" where
  "spec_contact_condition pd r =
     (Some (address r) = pd ''address''
      \<or> (dict_get pd ''phone'' \<noteq> None \<and> dict_get pd ''phone'' \<noteq> Some [] \<and> phone r = dict_get pd ''phone'')
      \<or> (dict_get pd ''email'' \<noteq> None \<and> dict_get pd ''email'' \<noteq> Some [] \<and> email r = dict_get pd ''email''))"

text \<open>The predicate: all of the items hold.\<close>

definition spec_matching_predicate :: "person_data \<Rightarrow> person \<Rightarrow> bool" where
  "spec_matching_predicate pd r = (spec_non_contact_conditions pd r \<and> spec_contact_condition pd r)"

section \<open>Example data\<close>

text \<open>
  A store after six writes: group 1 (Anna Ivanova) was written twice, so its first row
  is retired and closed in the history; groups 2 (Anna Petrova), 3 (Ivan Sidorov, male),
  4 (Olga Orlova, stored with an empty middle name) and 5 (Vera Volkova, stored without
  an address) were written once. The gender of the female rows is CYRILLIC CAPITAL
  LETTER ZHE, U+0416: bytes D0 96.
\<close>

definition gender_female :: string where
  "gender_female = [CHR 0xD0, CHR 0x96]"

definition example_store :: store where
  "example_store =
     \<lparr>person_groups = [1, 2, 3, 4, 5],
      change_sets = [],
      persons =
        [\<lparr>group_id = 1, last_name = Some ''Ivanova'', first_name = Some ''Anna'', middle_name = None,
          birth_date = Some ''1990-01-01'', gender = Some gender_female, address = Some ''123 Main'',
          phone = None, email = None,
          person_id = 1, change_id = None, created_at = 10, is_current = False\<rparr>,
         \<lparr>group_id = 2, last_name = Some ''Petrova'', first_name = Some ''Anna'', middle_name = None,
          birth_date = Some ''1985-05-05'', gender = Some gender_female, address = Some ''5 Elm'',
          phone = Some ''222'', email = None,
          person_id = 2, change_id = None, created_at = 20, is_current = True\<rparr>,
         \<lparr>group_id = 1, last_name = Some ''Ivanova'', first_name = Some ''Anna'', middle_name = None,
          birth_date = Some ''1990-01-01'', gender = Some gender_female, address = Some ''123 Main'',
          phone = Some ''111'', email = None,
          person_id = 3, change_id = None, created_at = 30, is_current = True\<rparr>,
         \<lparr>group_id = 3, last_name = Some ''Sidorov'', first_name = Some ''Ivan'', middle_name = None,
          birth_date = Some ''1970-07-07'', gender = Some gender_male, address = Some ''99 Oak'',
          phone = Some ''555'', email = None,
          person_id = 4, change_id = None, created_at = 40, is_current = True\<rparr>,
         \<lparr>group_id = 4, last_name = Some ''Orlova'', first_name = Some ''Olga'', middle_name = Some [],
          birth_date = Some ''2000-02-02'', gender = Some gender_female, address = Some ''1 Birch'',
          phone = None, email = Some ''olga@example.org'',
          person_id = 5, change_id = None, created_at = 50, is_current = True\<rparr>,
         \<lparr>group_id = 5, last_name = Some ''Volkova'', first_name = Some ''Vera'', middle_name = None,
          birth_date = Some ''1995-03-03'', gender = Some gender_female, address = None,
          phone = Some ''333'', email = None,
          person_id = 6, change_id = None, created_at = 60, is_current = True\<rparr>],
      person_histories =
        [\<lparr>group_id = 1, last_name = Some ''Ivanova'', first_name = Some ''Anna'', middle_name = None,
          birth_date = Some ''1990-01-01'', gender = Some gender_female, address = Some ''123 Main'',
          phone = None, email = None,
          history_id = 1, history_change_id = None, valid_from = 10, valid_to = 30\<rparr>],
      next_group_id = 6, next_change_id = 1, next_person_id = 7, next_history_id = 2\<rparr>"

definition snapshot_Z :: person_data where
  "snapshot_Z = [''gender'' \<mapsto> Some gender_female, ''first_name'' \<mapsto> Some ''Anna'',
                 ''last_name'' \<mapsto> Some ''Sidorova'', ''address'' \<mapsto> Some ''5 Elm'',
                 ''phone'' \<mapsto> Some ''111'']"

definition snapshot_E :: person_data where
  "snapshot_E = [''gender'' \<mapsto> Some gender_female, ''first_name'' \<mapsto> Some ''Olga'',
                 ''last_name'' \<mapsto> Some ''Orlova'', ''middle_name'' \<mapsto> Some [],
                 ''address'' \<mapsto> Some ''2 Birch'', ''email'' \<mapsto> Some ''olga@example.org'']"

definition snapshot_V :: person_data where
  "snapshot_V = [''gender'' \<mapsto> Some gender_female, ''first_name'' \<mapsto> Some ''Vera'',
                 ''last_name'' \<mapsto> Some ''Volkova'', ''address'' \<mapsto> None,
                 ''phone'' \<mapsto> Some ''444'']"

definition snapshot_D :: person_data where
  "snapshot_D = [''gender'' \<mapsto> Some gender_male, ''first_name'' \<mapsto> Some ''Ivan'',
                 ''last_name'' \<mapsto> Some ''Sidorov'', ''address'' \<mapsto> Some ''7 Pine'',
                 ''phone'' \<mapsto> Some ''555'']"

section \<open>Stores reached by sequences of calls\<close>

text \<open>
  The rows of a group that are current: the query
  \<^verbatim>\<open>Person.objects.filter(group=group, is_current=True)\<close> of line 89.
\<close>

definition current_rows :: "int \<Rightarrow> store \<Rightarrow> person list" where
  "current_rows g s = filter (\<lambda>r. group_id r = g \<and> is_current r) (persons s)"

text \<open>
  Modelled from the spec: the constraints the database keeps on its own (\<^verbatim>\<open>models.py\<close>
  is missing). The primary keys of \<^verbatim>\<open>Person\<close> are distinct and below their sequence,
  the group of every row is a row of \<^verbatim>\<open>PersonGroup\<close>, and the group identifiers are
  positive and below their sequence.
\<close>

definition database_constraints :: "store \<Rightarrow> bool" where
  "database_constraints s =
     (distinct (map person_id (persons s))
      \<and> (\<forall>r\<in>set (persons s). person_id r < next_person_id s \<and> group_id r \<in> set (person_groups s))
      \<and> (\<forall>g\<in>set (person_groups s). 0 < g \<and> g < next_group_id s)
      \<and> 0 < next_group_id s)"

text \<open>
  A sequence of calls of \<^verbatim>\<open>create_person\<close>, each with its snapshot, its change set and
  the time at which it runs. A call that raises is rolled back and leaves the store as
  it was.
\<close>

type_synonym call = "person_data \<times> change_set option \<times> int"

fun apply_calls :: "store \<Rightarrow> call list \<Rightarrow> store" where
  "apply_calls s [] = s"
| "apply_calls s ((person_data, change_set, now_ts) # calls) =
     (case create_person person_data change_set now_ts s of
        Inl e \<Rightarrow> apply_calls s calls
      | Inr (p, s') \<Rightarrow> apply_calls s' calls)"

text \<open>
  The first two scenarios of the specification: snapshot A written to the empty store at
  time 10, then snapshot B (the last name changed) at time 20, and the stores they leave.
\<close>

definition snapshot_A :: person_data where
  "snapshot_A = [''gender'' \<mapsto> Some gender_female, ''first_name'' \<mapsto> Some ''Anna'',
                 ''last_name'' \<mapsto> Some ''Ivanova'', ''address'' \<mapsto> Some ''123 Main'']"

definition snapshot_B :: person_data where
  "snapshot_B = [''gender'' \<mapsto> Some gender_female, ''first_name'' \<mapsto> Some ''Anna'',
                 ''last_name'' \<mapsto> Some ''Petrova'', ''address'' \<mapsto> Some ''123 Main'']"

definition store_A :: store where
  "store_A =
     \<lparr>person_groups = [1],
      change_sets = [\<lparr>cs_id = 1, author = Some ''system'', reason = Some ''API person creation''\<rparr>],
      persons =
        [\<lparr>group_id = 1, last_name = Some ''Ivanova'', first_name = Some ''Anna'', middle_name = None,
          birth_date = None, gender = Some gender_female, address = Some ''123 Main'',
          phone = None, email = None,
          person_id = 1, change_id = Some 1, created_at = 10, is_current = True\<rparr>],
      person_histories = [],
      next_group_id = 2, next_change_id = 2, next_person_id = 2, next_history_id = 1\<rparr>"

definition store_AB :: store where
  "store_AB =
     \<lparr>person_groups = [1],
      change_sets = [\<lparr>cs_id = 1, author = Some ''system'', reason = Some ''API person creation''\<rparr>,
                     \<lparr>cs_id = 2, author = Some ''system'', reason = Some ''API person creation''\<rparr>],
      persons =
        [\<lparr>group_id = 1, last_name = Some ''Ivanova'', first_name = Some ''Anna'', middle_name = None,
          birth_date = None, gender = Some gender_female, address = Some ''123 Main'',
          phone = None, email = None,
          person_id = 1, change_id = Some 1, created_at = 10, is_current = False\<rparr>,
         \<lparr>group_id = 1, last_name = Some ''Petrova'', first_name = Some ''Anna'', middle_name = None,
          birth_date = None, gender = Some gender_female, address = Some ''123 Main'',
          phone = None, email = None,
          person_id = 2, change_id = Some 2, created_at = 20, is_current = True\<rparr>],
      person_histories =
        [\<lparr>group_id = 1, last_name = Some ''Ivanova'', first_name = Some ''Anna'', middle_name = None,
          birth_date = None, gender = Some gender_female, address = Some ''123 Main'',
          phone = None, email = None,
          history_id = 1, history_change_id = Some 2, valid_from = 10, valid_to = 20\<rparr>],
      next_group_id = 2, next_change_id = 3, next_person_id = 3, next_history_id = 2\<rparr>"

section \<open>Rows, ordering and the first row\<close>

lemma first_row_Some: "first_row xs = Some x \<longleftrightarrow> (\<exists>ys. xs = x # ys)"
  by (auto simp: first_row_def split: list.splits)

lemma first_row_None: "first_row xs = None \<longleftrightarrow> xs = []"
  by (simp add: first_row_def split: list.splits)

lemma set_order_by: "set (order_by k xs) = set xs"
  by (simp add: order_by_def)

lemma first_row_order_by:
  assumes "first_row (order_by k xs) = Some x"
  shows "x \<in> set xs \<and> (\<forall>y\<in>set xs. k x \<le> k y)"
proof -
  from assms obtain ys where ys: "sort_key k xs = x # ys"
    by (auto simp: first_row_Some order_by_def)
  have "sorted (map k (sort_key k xs))" by simp
  with ys have "\<forall>y\<in>set ys. k x \<le> k y" by simp
  moreover have "set (sort_key k xs) = set xs" by simp
  ultimately show ?thesis using ys by (metis insert_iff list.set(2) order_refl)
qed

lemma first_row_order_by_None: "first_row (order_by k xs) = None \<longleftrightarrow> xs = []"
  by (metis first_row_None set_order_by set_empty)

lemma first_row_map: "first_row (map f xs) = map_option f (first_row xs)"
  by (cases xs) (simp_all add: first_row_def)

lemma truthy_iff: "truthy v \<longleftrightarrow> v \<noteq> None \<and> v \<noteq> Some []"
  by (cases v) (simp_all add: truthy_def)

lemma middle_name_filter:
  "(if mn = None then filter (\<lambda>r. middle_name r = None) qs else filter (\<lambda>r. middle_name r = mn) qs)
     = filter (\<lambda>r. middle_name r = mn) qs"
  by simp

lemma find_matching_group_unfold:
  "find_matching_group pd s =
     (case pd ''gender'' of None \<Rightarrow> Inl (KeyError ''gender'') | Some g \<Rightarrow>
       (case pd ''first_name'' of None \<Rightarrow> Inl (KeyError ''first_name'') | Some fn \<Rightarrow>
         (if g = Some gender_male \<and> pd ''last_name'' = None then Inl (KeyError ''last_name'')
          else (case pd ''address'' of None \<Rightarrow> Inl (KeyError ''address'') | Some addr \<Rightarrow>
            Inr (first_row (map group_id (order_by group_id
                   (filter (spec_matching_predicate pd) (persons s)))))))))"
proof (cases "pd ''gender''")
  case None
  then show ?thesis by (simp add: find_matching_group_def subscript_def)
next
  case g: (Some g)
  show ?thesis
  proof (cases "pd ''first_name''")
    case None
    with g show ?thesis by (simp add: find_matching_group_def subscript_def)
  next
    case fn: (Some fn)
    show ?thesis
    proof (cases "g = Some gender_male")
      case True
      show ?thesis
      proof (cases "pd ''last_name''")
        case None
        with g fn True show ?thesis
          by (simp add: find_matching_group_def subscript_def Let_def)
      next
        case l: (Some l)
        show ?thesis
        proof (cases "pd ''address''")
          case None
          with g fn True l show ?thesis
            by (simp add: find_matching_group_def subscript_def Let_def)
        next
          case a: (Some addr)
          have "spec_matching_predicate pd = (\<lambda>r. (((is_current r \<and> gender r = g \<and> first_name r = fn)
                  \<and> middle_name r = dict_get pd ''middle_name'') \<and> last_name r = l)
                  \<and> contact_q addr (dict_get pd ''phone'') (dict_get pd ''email'') r)"
            using True g fn l a
            by (auto simp: spec_matching_predicate_def spec_non_contact_conditions_def
                  spec_contact_condition_def contact_q_def truthy_iff fun_eq_iff)
          then show ?thesis
            using True g fn l a
            by (simp add: find_matching_group_def subscript_def Let_def middle_name_filter conj_ac)
        qed
      qed
    next
      case False
      show ?thesis
      proof (cases "pd ''address''")
        case None
        with g fn False show ?thesis
          by (simp add: find_matching_group_def subscript_def Let_def)
      next
        case a: (Some addr)
        have "spec_matching_predicate pd = (\<lambda>r. ((is_current r \<and> gender r = g \<and> first_name r = fn)
                \<and> middle_name r = dict_get pd ''middle_name'')
                \<and> contact_q addr (dict_get pd ''phone'') (dict_get pd ''email'') r)"
          using False g fn a
          by (auto simp: spec_matching_predicate_def spec_non_contact_conditions_def
                spec_contact_condition_def contact_q_def truthy_iff fun_eq_iff)
        then show ?thesis
          using False g fn a
          by (simp add: find_matching_group_def subscript_def Let_def middle_name_filter conj_ac)
      qed
    qed
  qed
qed

lemma find_matching_group_rows:
  assumes "find_matching_group pd s = Inr res"
  shows "res = first_row (map group_id (order_by group_id (filter (spec_matching_predicate pd) (persons s))))"
  using assms unfolding find_matching_group_unfold
  by (simp split: option.splits if_splits)

lemma find_matching_group_Some:
  assumes "find_matching_group pd s = Inr (Some g)"
  shows "(\<exists>r\<in>set (persons s). spec_matching_predicate pd r \<and> group_id r = g)
         \<and> (\<forall>r\<in>set (persons s). spec_matching_predicate pd r \<longrightarrow> g \<le> group_id r)"
proof -
  let ?ms = "filter (spec_matching_predicate pd) (persons s)"
  from find_matching_group_rows [OF assms]
  have "map_option group_id (first_row (order_by group_id ?ms)) = Some g"
    by (simp add: first_row_map)
  then obtain r where r: "first_row (order_by group_id ?ms) = Some r" and g: "group_id r = g"
    by auto
  from first_row_order_by [OF r] g show ?thesis by auto
qed

lemma find_matching_group_None:
  assumes "find_matching_group pd s = Inr None"
  shows "\<forall>r\<in>set (persons s). \<not> spec_matching_predicate pd r"
proof -
  from find_matching_group_rows [OF assms]
  have "first_row (order_by group_id (filter (spec_matching_predicate pd) (persons s))) = None"
    by (simp add: first_row_map)
  then have "filter (spec_matching_predicate pd) (persons s) = []"
    by (simp only: first_row_order_by_None)
  then show ?thesis by (simp add: filter_empty_conv)
qed

lemma find_matching_group_same_rows:
  assumes "pd' ''gender'' = pd ''gender''" and "pd' ''first_name'' = pd ''first_name''"
    and "pd' ''address'' = pd ''address''"
    and "pd ''gender'' = Some (Some gender_male) \<Longrightarrow> (pd' ''last_name'' = None) = (pd ''last_name'' = None)"
    and "filter (spec_matching_predicate pd') (persons s') = filter (spec_matching_predicate pd) (persons s)"
  shows "find_matching_group pd' s' = find_matching_group pd s"
  unfolding find_matching_group_unfold using assms
  by (auto split: option.splits)

lemma find_matching_group_hit:
  assumes "find_matching_group pd s = Inr res" and "r \<in> set (persons s)"
    and "spec_matching_predicate pd r"
  shows "\<exists>g. res = Some g \<and> g \<le> group_id r"
proof (cases res)
  case None
  with assms(1) have "\<forall>r\<in>set (persons s). \<not> spec_matching_predicate pd r"
    by (simp add: find_matching_group_None)
  with assms(2,3) show ?thesis by blast
next
  case (Some g)
  with assms(1) have "\<forall>r\<in>set (persons s). spec_matching_predicate pd r \<longrightarrow> g \<le> group_id r"
    using find_matching_group_Some by blast
  with assms(2,3) Some show ?thesis by blast
qed

lemma find_matching_group_restrict:
  assumes "\<And>r. r \<in> set (persons s) \<Longrightarrow> spec_matching_predicate pd r \<Longrightarrow> P r"
  shows "find_matching_group pd (s\<lparr>persons := filter P (persons s)\<rparr>) = find_matching_group pd s"
proof (rule find_matching_group_same_rows)
  show "filter (spec_matching_predicate pd) (persons (s\<lparr>persons := filter P (persons s)\<rparr>))
          = filter (spec_matching_predicate pd) (persons s)"
    using assms by (auto intro: filter_cong)
qed simp_all

lemmas example_defs = find_matching_group_def subscript_def dict_get_def truthy_def contact_q_def
  order_by_def first_row_def Let_def gender_male_def gender_female_def example_store_def
  snapshot_Z_def snapshot_D_def snapshot_E_def snapshot_V_def


lemmas spec_defs = spec_matching_predicate_def spec_non_contact_conditions_def
  spec_contact_condition_def

section \<open>The matching engine\<close>

text \<open>
  C3 (surname rule). For a snapshot whose gender is male, the rows whose last name
  differs from the snapshot's cannot match: dropping them from the table leaves the
  answer of \<open>find_matching_group\<close> unchanged, and a group that is found holds a
  current row with the snapshot's last name. For a snapshot of any other gender the
  last name plays no part: rebinding or removing the key leaves the answer unchanged.
\<close>

theorem surname_rule:
  "(pd ''gender'' = Some (Some gender_male) \<longrightarrow>
      find_matching_group pd
        (s\<lparr>persons := filter (\<lambda>r. Some (last_name r) = pd ''last_name'') (persons s)\<rparr>)
        = find_matching_group pd s
      \<and> (\<forall>g. find_matching_group pd s = Inr (Some g) \<longrightarrow>
            (\<exists>r\<in>set (persons s). group_id r = g \<and> is_current r \<and> Some (last_name r) = pd ''last_name'')))
   \<and> (pd ''gender'' \<noteq> Some (Some gender_male) \<longrightarrow>
        (\<forall>v. find_matching_group (pd(''last_name'' := v)) s = find_matching_group pd s))"
proof (intro conjI impI allI)
  assume male: "pd ''gender'' = Some (Some gender_male)"
  then show "find_matching_group pd
        (s\<lparr>persons := filter (\<lambda>r. Some (last_name r) = pd ''last_name'') (persons s)\<rparr>)
        = find_matching_group pd s"
    by (intro find_matching_group_restrict)
       (simp add: spec_matching_predicate_def spec_non_contact_conditions_def)
next
  fix g
  assume male: "pd ''gender'' = Some (Some gender_male)"
    and "find_matching_group pd s = Inr (Some g)"
  then obtain r where "r \<in> set (persons s)" "spec_matching_predicate pd r" "group_id r = g"
    using find_matching_group_Some by blast
  with male show "\<exists>r\<in>set (persons s). group_id r = g \<and> is_current r \<and> Some (last_name r) = pd ''last_name''"
    by (auto simp: spec_matching_predicate_def spec_non_contact_conditions_def)
next
  fix v
  assume other: "pd ''gender'' \<noteq> Some (Some gender_male)"
  show "find_matching_group (pd(''last_name'' := v)) s = find_matching_group pd s"
  proof (rule find_matching_group_same_rows)
    have "spec_matching_predicate (pd(''last_name'' := v)) = spec_matching_predicate pd"
      using other
      by (simp add: spec_matching_predicate_def spec_non_contact_conditions_def
            spec_contact_condition_def dict_get_def fun_eq_iff)
    then show "filter (spec_matching_predicate (pd(''last_name'' := v))) (persons s)
                 = filter (spec_matching_predicate pd) (persons s)"
      by simp
  qed (use other in simp_all)
qed

theorem surname_rule_witness:
  "snapshot_D ''gender'' = Some (Some gender_male)
   \<and> find_matching_group snapshot_D example_store = Inr (Some 3)
   \<and> (\<exists>r\<in>set (persons example_store). group_id r = 3 \<and> is_current r
         \<and> Some (last_name r) = snapshot_D ''last_name'')
   \<and> find_matching_group (snapshot_D(''last_name'' \<mapsto> Some ''Petrov'')) example_store = Inr None
   \<and> snapshot_Z ''gender'' \<noteq> Some (Some gender_male)
   \<and> find_matching_group snapshot_Z example_store = Inr (Some 1)
   \<and> find_matching_group (snapshot_Z(''last_name'' \<mapsto> Some ''Ivanova'')) example_store = Inr (Some 1)"
proof -
  have male: "snapshot_D ''gender'' = Some (Some gender_male)"
    by (simp add: snapshot_D_def)
  have d: "find_matching_group snapshot_D example_store = Inr (Some 3)"
    by (simp add: example_defs)
  have d': "find_matching_group (snapshot_D(''last_name'' \<mapsto> Some ''Petrov'')) example_store = Inr None"
    by (simp add: example_defs)
  have other: "snapshot_Z ''gender'' \<noteq> Some (Some gender_male)"
    by (simp add: snapshot_Z_def gender_male_def gender_female_def)
  have z: "find_matching_group snapshot_Z example_store = Inr (Some 1)"
    by (simp add: example_defs)
  from surname_rule [of snapshot_D example_store] male d
  have 1: "\<exists>r\<in>set (persons example_store). group_id r = 3 \<and> is_current r
         \<and> Some (last_name r) = snapshot_D ''last_name''"
    by blast
  from surname_rule [of snapshot_Z example_store] other z
  have 2: "find_matching_group (snapshot_Z(''last_name'' \<mapsto> Some ''Ivanova'')) example_store = Inr (Some 1)"
    by simp
  from male d 1 d' other z 2 show ?thesis by blast
qed

text \<open>
  C4 (contact disjunction). When \<open>find_matching_group\<close> returns, a row that meets the
  conditions on currency, gender and names and agrees with the snapshot on the address,
  or on a phone the snapshot gives and that is not empty, or on an e-mail the snapshot
  gives and that is not empty, is enough for a group to be found (one no larger than the
  row's); and a group that is found holds such a row. One channel suffices: the others
  may differ.
\<close>

theorem contact_disjunction:
  assumes "find_matching_group pd s = Inr res"
  shows "(\<forall>r\<in>set (persons s).
            spec_non_contact_conditions pd r
            \<and> (Some (address r) = pd ''address''
               \<or> (dict_get pd ''phone'' \<noteq> None \<and> dict_get pd ''phone'' \<noteq> Some []
                    \<and> phone r = dict_get pd ''phone'')
               \<or> (dict_get pd ''email'' \<noteq> None \<and> dict_get pd ''email'' \<noteq> Some []
                    \<and> email r = dict_get pd ''email''))
            \<longrightarrow> (\<exists>g. res = Some g \<and> g \<le> group_id r))
       \<and> (\<forall>g. res = Some g \<longrightarrow>
            (\<exists>r\<in>set (persons s). group_id r = g \<and> spec_non_contact_conditions pd r
               \<and> (Some (address r) = pd ''address''
                  \<or> (dict_get pd ''phone'' \<noteq> None \<and> dict_get pd ''phone'' \<noteq> Some []
                       \<and> phone r = dict_get pd ''phone'')
                  \<or> (dict_get pd ''email'' \<noteq> None \<and> dict_get pd ''email'' \<noteq> Some []
                       \<and> email r = dict_get pd ''email''))))"
proof (intro conjI ballI allI impI)
  fix r
  assume r: "r \<in> set (persons s)"
    and h: "spec_non_contact_conditions pd r
            \<and> (Some (address r) = pd ''address''
               \<or> (dict_get pd ''phone'' \<noteq> None \<and> dict_get pd ''phone'' \<noteq> Some []
                    \<and> phone r = dict_get pd ''phone'')
               \<or> (dict_get pd ''email'' \<noteq> None \<and> dict_get pd ''email'' \<noteq> Some []
                    \<and> email r = dict_get pd ''email''))"
  then have "spec_matching_predicate pd r"
    by (simp add: spec_matching_predicate_def spec_contact_condition_def)
  with assms r show "\<exists>g. res = Some g \<and> g \<le> group_id r"
    by (rule find_matching_group_hit)
next
  fix g
  assume "res = Some g"
  with assms obtain r where "r \<in> set (persons s)" "spec_matching_predicate pd r" "group_id r = g"
    using find_matching_group_Some by blast
  then show "\<exists>r\<in>set (persons s). group_id r = g \<and> spec_non_contact_conditions pd r
               \<and> (Some (address r) = pd ''address''
                  \<or> (dict_get pd ''phone'' \<noteq> None \<and> dict_get pd ''phone'' \<noteq> Some []
                       \<and> phone r = dict_get pd ''phone'')
                  \<or> (dict_get pd ''email'' \<noteq> None \<and> dict_get pd ''email'' \<noteq> Some []
                       \<and> email r = dict_get pd ''email''))"
    by (auto simp: spec_matching_predicate_def spec_contact_condition_def)
qed

text \<open>
  In the example store: an address hit with another phone finds group 2, a phone hit
  with another address finds group 1, an e-mail hit with another address finds group 4,
  an absent address finds the row stored without an address (group 5) although the
  phones differ; no hit, or an empty phone, finds nothing.
\<close>

theorem contact_disjunction_witness:
  "find_matching_group (snapshot_Z(''phone'' \<mapsto> Some ''999'')) example_store = Inr (Some 2)
   \<and> find_matching_group (snapshot_Z(''address'' \<mapsto> Some ''nowhere'')) example_store = Inr (Some 1)
   \<and> find_matching_group snapshot_E example_store = Inr (Some 4)
   \<and> snapshot_V ''address'' = Some None
   \<and> find_matching_group snapshot_V example_store = Inr (Some 5)
   \<and> find_matching_group (snapshot_Z(''address'' \<mapsto> Some ''nowhere'', ''phone'' \<mapsto> Some ''999''))
        example_store = Inr None
   \<and> find_matching_group (snapshot_Z(''address'' \<mapsto> Some ''nowhere'', ''phone'' \<mapsto> Some []))
        example_store = Inr None
   \<and> (\<exists>r\<in>set (persons example_store). group_id r = 1
         \<and> spec_non_contact_conditions (snapshot_Z(''address'' \<mapsto> Some ''nowhere'')) r
         \<and> Some (address r) \<noteq> Some (Some ''nowhere'') \<and> phone r = Some ''111'')"
proof -
  have a: "find_matching_group (snapshot_Z(''phone'' \<mapsto> Some ''999'')) example_store = Inr (Some 2)"
    by (simp add: example_defs)
  have b: "find_matching_group (snapshot_Z(''address'' \<mapsto> Some ''nowhere'')) example_store = Inr (Some 1)"
    by (simp add: example_defs)
  have c: "find_matching_group snapshot_E example_store = Inr (Some 4)"
    by (simp add: example_defs)
  have v: "snapshot_V ''address'' = Some None"
    "find_matching_group snapshot_V example_store = Inr (Some 5)"
    by (simp_all add: example_defs)
  have d: "find_matching_group (snapshot_Z(''address'' \<mapsto> Some ''nowhere'', ''phone'' \<mapsto> Some ''999''))
        example_store = Inr None"
    by (simp add: example_defs)
  have e: "find_matching_group (snapshot_Z(''address'' \<mapsto> Some ''nowhere'', ''phone'' \<mapsto> Some []))
        example_store = Inr None"
    by (simp add: example_defs)
  from contact_disjunction [OF b]
  obtain r where r: "r \<in> set (persons example_store)" "group_id r = 1"
      "spec_non_contact_conditions (snapshot_Z(''address'' \<mapsto> Some ''nowhere'')) r"
      "Some (address r) = (snapshot_Z(''address'' \<mapsto> Some ''nowhere'')) ''address''
         \<or> (dict_get (snapshot_Z(''address'' \<mapsto> Some ''nowhere'')) ''phone'' \<noteq> None
              \<and> dict_get (snapshot_Z(''address'' \<mapsto> Some ''nowhere'')) ''phone'' \<noteq> Some []
              \<and> phone r = dict_get (snapshot_Z(''address'' \<mapsto> Some ''nowhere'')) ''phone'')
         \<or> (dict_get (snapshot_Z(''address'' \<mapsto> Some ''nowhere'')) ''email'' \<noteq> None
              \<and> dict_get (snapshot_Z(''address'' \<mapsto> Some ''nowhere'')) ''email'' \<noteq> Some []
              \<and> email r = dict_get (snapshot_Z(''address'' \<mapsto> Some ''nowhere'')) ''email'')"
    by blast
  from r(1) have "address r \<noteq> Some ''nowhere''"
    by (auto simp: example_store_def)
  moreover from this r(4) have "phone r = Some ''111''"
    by (simp add: snapshot_Z_def dict_get_def)
  ultimately have f: "\<exists>r\<in>set (persons example_store). group_id r = 1
         \<and> spec_non_contact_conditions (snapshot_Z(''address'' \<mapsto> Some ''nowhere'')) r
         \<and> Some (address r) \<noteq> Some (Some ''nowhere'') \<and> phone r = Some ''111''"
    using r(1,2,3) by auto
  show ?thesis
    by (intro conjI) (fact a b c v d e f)+
qed

text \<open>
  C6 (tie-break). When \<open>find_matching_group\<close> returns, the answer is none exactly when
  no row satisfies the matching predicate, and it is \<open>g\<close> exactly when some matching
  row belongs to group \<open>g\<close> and every matching row belongs to a group at least \<open>g\<close>:
  the smallest matching group identifier.
\<close>

theorem smallest_group_id:
  assumes "find_matching_group pd s = Inr res"
  shows "(res = None \<longleftrightarrow> (\<forall>r\<in>set (persons s). \<not> spec_matching_predicate pd r))
       \<and> (\<forall>g. res = Some g \<longleftrightarrow>
            (\<exists>r\<in>set (persons s). spec_matching_predicate pd r \<and> group_id r = g)
            \<and> (\<forall>r\<in>set (persons s). spec_matching_predicate pd r \<longrightarrow> g \<le> group_id r))"
proof -
  have none: "res = None \<longleftrightarrow> (\<forall>r\<in>set (persons s). \<not> spec_matching_predicate pd r)"
  proof
    assume "res = None"
    with assms show "\<forall>r\<in>set (persons s). \<not> spec_matching_predicate pd r"
      by (simp add: find_matching_group_None)
  next
    assume no: "\<forall>r\<in>set (persons s). \<not> spec_matching_predicate pd r"
    show "res = None"
    proof (cases res)
      case (Some g)
      with assms no show ?thesis using find_matching_group_Some by blast
    qed simp
  qed
  have some: "res = Some g \<longleftrightarrow>
            (\<exists>r\<in>set (persons s). spec_matching_predicate pd r \<and> group_id r = g)
            \<and> (\<forall>r\<in>set (persons s). spec_matching_predicate pd r \<longrightarrow> g \<le> group_id r)" for g
  proof
    assume "res = Some g"
    with assms show "(\<exists>r\<in>set (persons s). spec_matching_predicate pd r \<and> group_id r = g)
            \<and> (\<forall>r\<in>set (persons s). spec_matching_predicate pd r \<longrightarrow> g \<le> group_id r)"
      by (simp add: find_matching_group_Some)
  next
    assume h: "(\<exists>r\<in>set (persons s). spec_matching_predicate pd r \<and> group_id r = g)
            \<and> (\<forall>r\<in>set (persons s). spec_matching_predicate pd r \<longrightarrow> g \<le> group_id r)"
    then obtain r where r: "r \<in> set (persons s)" "spec_matching_predicate pd r" "group_id r = g"
      by blast
    from find_matching_group_hit [OF assms r(1,2)] obtain g' where g': "res = Some g'" "g' \<le> g"
      using r(3) by blast
    with assms obtain r' where "r' \<in> set (persons s)" "spec_matching_predicate pd r'" "group_id r' = g'"
      using find_matching_group_Some by blast
    with h have "g \<le> g'" by blast
    with g' show "res = Some g" by simp
  qed
  from none some show ?thesis by blast
qed

text \<open>
  In the example store the rows of groups 2 and 1 match, in this order of the table;
  the answer is group 1.
\<close>

theorem smallest_group_id_witness:
  "find_matching_group snapshot_Z example_store = Inr (Some 1)
   \<and> (\<exists>r\<in>set (persons example_store). spec_matching_predicate snapshot_Z r \<and> group_id r = 2)
   \<and> (\<exists>r\<in>set (persons example_store). spec_matching_predicate snapshot_Z r \<and> group_id r = 1)
   \<and> map group_id (filter (spec_matching_predicate snapshot_Z) (persons example_store)) = [2, 1]"
proof -
  have z: "find_matching_group snapshot_Z example_store = Inr (Some 1)"
    by (simp add: example_defs)
  have two: "map group_id (filter (spec_matching_predicate snapshot_Z) (persons example_store)) = [2, 1]"
    by (simp add: spec_defs example_defs)
  then have "\<exists>r\<in>set (persons example_store). spec_matching_predicate snapshot_Z r \<and> group_id r = 2"
    by (simp add: spec_defs example_defs)
  moreover from smallest_group_id [OF z]
  have "\<exists>r\<in>set (persons example_store). spec_matching_predicate snapshot_Z r \<and> group_id r = 1"
    by blast
  ultimately show ?thesis using z two by blast
qed

text \<open>
  C7 (middle name). A snapshot whose middle name is absent (the key is missing or bound
  to \<^verbatim>\<open>None\<close>) is only matched by rows whose middle name is NULL, and a snapshot with
  a middle name only by rows with that very middle name: dropping all other rows from
  the table leaves the answer unchanged. Conversely a row that meets the other
  conditions and whose middle name is NULL for an absent one, or equal to a present one,
  makes the search find a group.
\<close>

theorem middle_name_equality:
  "(pd ''middle_name'' = None \<or> pd ''middle_name'' = Some None \<longrightarrow>
      find_matching_group pd (s\<lparr>persons := filter (\<lambda>r. middle_name r = None) (persons s)\<rparr>)
        = find_matching_group pd s)
   \<and> (\<forall>m. pd ''middle_name'' = Some (Some m) \<longrightarrow>
      find_matching_group pd (s\<lparr>persons := filter (\<lambda>r. middle_name r = Some m) (persons s)\<rparr>)
        = find_matching_group pd s)
   \<and> (\<forall>res. find_matching_group pd s = Inr res \<longrightarrow>
        (\<forall>r\<in>set (persons s).
           is_current r
           \<and> Some (gender r) = pd ''gender''
           \<and> Some (first_name r) = pd ''first_name''
           \<and> (pd ''gender'' = Some (Some gender_male) \<longrightarrow> Some (last_name r) = pd ''last_name'')
           \<and> spec_contact_condition pd r
           \<and> (if pd ''middle_name'' = None \<or> pd ''middle_name'' = Some None
               then middle_name r = None else Some (middle_name r) = pd ''middle_name'')
           \<longrightarrow> (\<exists>g. res = Some g \<and> g \<le> group_id r)))"
proof (intro conjI allI impI ballI)
  assume "pd ''middle_name'' = None \<or> pd ''middle_name'' = Some None"
  then have "dict_get pd ''middle_name'' = None"
    by (auto simp: dict_get_def)
  then show "find_matching_group pd (s\<lparr>persons := filter (\<lambda>r. middle_name r = None) (persons s)\<rparr>)
        = find_matching_group pd s"
    by (intro find_matching_group_restrict)
       (simp add: spec_matching_predicate_def spec_non_contact_conditions_def)
next
  fix m
  assume "pd ''middle_name'' = Some (Some m)"
  then have "dict_get pd ''middle_name'' = Some m"
    by (simp add: dict_get_def)
  then show "find_matching_group pd (s\<lparr>persons := filter (\<lambda>r. middle_name r = Some m) (persons s)\<rparr>)
        = find_matching_group pd s"
    by (intro find_matching_group_restrict)
       (simp add: spec_matching_predicate_def spec_non_contact_conditions_def)
next
  fix res r
  assume res: "find_matching_group pd s = Inr res" and r: "r \<in> set (persons s)"
    and h: "is_current r
           \<and> Some (gender r) = pd ''gender''
           \<and> Some (first_name r) = pd ''first_name''
           \<and> (pd ''gender'' = Some (Some gender_male) \<longrightarrow> Some (last_name r) = pd ''last_name'')
           \<and> spec_contact_condition pd r
           \<and> (if pd ''middle_name'' = None \<or> pd ''middle_name'' = Some None
               then middle_name r = None else Some (middle_name r) = pd ''middle_name'')"
  then have "middle_name r = dict_get pd ''middle_name''"
    by (auto simp: dict_get_def split: if_splits option.splits)
  with h have "spec_matching_predicate pd r"
    by (simp add: spec_matching_predicate_def spec_non_contact_conditions_def)
  with res r show "\<exists>g. res = Some g \<and> g \<le> group_id r"
    by (rule find_matching_group_hit)
qed

theorem middle_name_equality_witness:
  "snapshot_Z ''middle_name'' = None
   \<and> find_matching_group snapshot_Z example_store = Inr (Some 1)
   \<and> find_matching_group snapshot_Z
        (example_store\<lparr>persons := filter (\<lambda>r. middle_name r = None) (persons example_store)\<rparr>)
        = Inr (Some 1)
   \<and> find_matching_group (snapshot_Z(''middle_name'' \<mapsto> Some ''Petrovna'')) example_store = Inr None
   \<and> snapshot_E ''middle_name'' = Some (Some [])
   \<and> find_matching_group snapshot_E example_store = Inr (Some 4)
   \<and> find_matching_group snapshot_E
        (example_store\<lparr>persons := filter (\<lambda>r. middle_name r = Some []) (persons example_store)\<rparr>)
        = Inr (Some 4)
   \<and> find_matching_group (snapshot_E(''middle_name'' := None)) example_store = Inr None"
proof -
  have z0: "snapshot_Z ''middle_name'' = None"
    by (simp add: snapshot_Z_def)
  have z: "find_matching_group snapshot_Z example_store = Inr (Some 1)"
    by (simp add: example_defs)
  have z': "find_matching_group (snapshot_Z(''middle_name'' \<mapsto> Some ''Petrovna'')) example_store = Inr None"
    by (simp add: example_defs)
  have e0: "snapshot_E ''middle_name'' = Some (Some [])"
    by (simp add: snapshot_E_def)
  have e: "find_matching_group snapshot_E example_store = Inr (Some 4)"
    by (simp add: example_defs)
  have e': "find_matching_group (snapshot_E(''middle_name'' := None)) example_store = Inr None"
    by (simp add: example_defs)
  from middle_name_equality [of snapshot_Z example_store] z0 z
  have 1: "find_matching_group snapshot_Z
        (example_store\<lparr>persons := filter (\<lambda>r. middle_name r = None) (persons example_store)\<rparr>)
        = Inr (Some 1)"
    by simp
  from middle_name_equality [of snapshot_E example_store] e0 e
  have 2: "find_matching_group snapshot_E
        (example_store\<lparr>persons := filter (\<lambda>r. middle_name r = Some []) (persons example_store)\<rparr>)
        = Inr (Some 4)"
    by simp
  from z0 z 1 z' e0 e 2 e' show ?thesis by blast
qed

text \<open>
  C10 (empty middle name). A snapshot whose middle name is the empty string only finds
  a group that holds a current row storing the empty string, never through a NULL; a
  snapshot whose middle name is missing or \<^verbatim>\<open>None\<close> only finds a group with a current
  row whose middle name is NULL; and a missing key and a key bound to \<^verbatim>\<open>None\<close> give
  the same answer.
\<close>

theorem empty_middle_name_is_a_value:
  "(pd ''middle_name'' = Some (Some []) \<longrightarrow>
      (\<forall>g. find_matching_group pd s = Inr (Some g) \<longrightarrow>
         (\<exists>r\<in>set (persons s). group_id r = g \<and> is_current r \<and> middle_name r = Some [])))
   \<and> (pd ''middle_name'' = None \<or> pd ''middle_name'' = Some None \<longrightarrow>
      (\<forall>g. find_matching_group pd s = Inr (Some g) \<longrightarrow>
         (\<exists>r\<in>set (persons s). group_id r = g \<and> is_current r \<and> middle_name r = None)))
   \<and> find_matching_group (pd(''middle_name'' := None)) s
        = find_matching_group (pd(''middle_name'' \<mapsto> None)) s"
proof (intro conjI allI impI)
  fix g
  assume "pd ''middle_name'' = Some (Some [])" and "find_matching_group pd s = Inr (Some g)"
  moreover from this obtain r
    where "r \<in> set (persons s)" "spec_matching_predicate pd r" "group_id r = g"
    using find_matching_group_Some by blast
  ultimately show "\<exists>r\<in>set (persons s). group_id r = g \<and> is_current r \<and> middle_name r = Some []"
    by (auto simp: spec_matching_predicate_def spec_non_contact_conditions_def dict_get_def)
next
  fix g
  assume "pd ''middle_name'' = None \<or> pd ''middle_name'' = Some None"
    and "find_matching_group pd s = Inr (Some g)"
  moreover from this obtain r
    where "r \<in> set (persons s)" "spec_matching_predicate pd r" "group_id r = g"
    using find_matching_group_Some by blast
  ultimately show "\<exists>r\<in>set (persons s). group_id r = g \<and> is_current r \<and> middle_name r = None"
    by (auto simp: spec_matching_predicate_def spec_non_contact_conditions_def dict_get_def)
next
  have "spec_matching_predicate (pd(''middle_name'' := None))
          = spec_matching_predicate (pd(''middle_name'' \<mapsto> None))"
    by (simp add: spec_matching_predicate_def spec_non_contact_conditions_def
          spec_contact_condition_def dict_get_def fun_eq_iff)
  then show "find_matching_group (pd(''middle_name'' := None)) s
        = find_matching_group (pd(''middle_name'' \<mapsto> None)) s"
    by (intro find_matching_group_same_rows) simp_all
qed

theorem empty_middle_name_is_a_value_witness:
  "find_matching_group (snapshot_Z(''middle_name'' \<mapsto> Some [])) example_store = Inr None
   \<and> find_matching_group (snapshot_Z(''middle_name'' := None)) example_store = Inr (Some 1)
   \<and> find_matching_group (snapshot_Z(''middle_name'' \<mapsto> None)) example_store = Inr (Some 1)
   \<and> (\<exists>r\<in>set (persons example_store). group_id r = 1 \<and> is_current r \<and> middle_name r = None)
   \<and> snapshot_E ''middle_name'' = Some (Some [])
   \<and> find_matching_group snapshot_E example_store = Inr (Some 4)
   \<and> (\<exists>r\<in>set (persons example_store). group_id r = 4 \<and> is_current r \<and> middle_name r = Some [])"
proof -
  have a: "find_matching_group (snapshot_Z(''middle_name'' \<mapsto> Some [])) example_store = Inr None"
    by (simp add: example_defs)
  have b: "find_matching_group (snapshot_Z(''middle_name'' := None)) example_store = Inr (Some 1)"
    by (simp add: example_defs)
  from empty_middle_name_is_a_value [of snapshot_Z example_store] b
  have c: "find_matching_group (snapshot_Z(''middle_name'' \<mapsto> None)) example_store = Inr (Some 1)"
    by simp
  have "(snapshot_Z(''middle_name'' \<mapsto> None)) ''middle_name'' = Some None"
    by simp
  with empty_middle_name_is_a_value [of "snapshot_Z(''middle_name'' \<mapsto> None)" example_store] c
  have d: "\<exists>r\<in>set (persons example_store). group_id r = 1 \<and> is_current r \<and> middle_name r = None"
    by blast
  have e0: "snapshot_E ''middle_name'' = Some (Some [])"
    by (simp add: snapshot_E_def)
  have e: "find_matching_group snapshot_E example_store = Inr (Some 4)"
    by (simp add: example_defs)
  from empty_middle_name_is_a_value [of snapshot_E example_store] e0 e
  have f: "\<exists>r\<in>set (persons example_store). group_id r = 4 \<and> is_current r \<and> middle_name r = Some []"
    by blast
  from a b c d e0 e f show ?thesis by blast
qed

section \<open>The version manager\<close>

lemma find_matching_group_persons:
  "persons s' = persons s \<Longrightarrow> find_matching_group pd s' = find_matching_group pd s"
  by (rule find_matching_group_same_rows) simp_all

lemma create_person_result:
  assumes "create_person pd c now s = Inr (p, s')"
  shows "\<exists>(cs::change_set) grp.
     dom pd \<subseteq> set person_attributes
   \<and> p = \<lparr>group_id = grp,
          last_name = dict_get pd ''last_name'',
          first_name = dict_get pd ''first_name'',
          middle_name = dict_get pd ''middle_name'',
          birth_date = dict_get pd ''birth_date'',
          gender = dict_get pd ''gender'',
          address = dict_get pd ''address'',
          phone = dict_get pd ''phone'',
          email = dict_get pd ''email'',
          person_id = next_person_id s,
          change_id = Some (cs_id cs),
          created_at = now,
          is_current = True\<rparr>
   \<and> (find_matching_group pd s = Inr (Some grp) \<and> grp \<noteq> 0 \<and> grp \<in> set (person_groups s)
        \<and> person_groups s' = person_groups s \<and> next_group_id s' = next_group_id s
      \<or> (find_matching_group pd s = Inr None \<or> find_matching_group pd s = Inr (Some 0))
        \<and> grp = next_group_id s \<and> person_groups s' = person_groups s @ [grp]
        \<and> next_group_id s' = next_group_id s + 1)
   \<and> next_person_id s' = next_person_id s + 1
   \<and> (case first_row (order_by (\<lambda>r. - created_at r)
              (filter (\<lambda>r. group_id r = grp \<and> is_current r \<and> person_id r \<noteq> next_person_id s)
                 (persons s))) of
        None \<Rightarrow> persons s' = persons s @ [p] \<and> person_histories s' = person_histories s
      | Some prev \<Rightarrow>
          persons s' = map (\<lambda>r. if person_id r = person_id prev then r\<lparr>is_current := False\<rparr> else r)
                         (persons s) @ [p]
          \<and> person_histories s' = person_histories s @
               [\<lparr>group_id = grp,
                 last_name = last_name prev,
                 first_name = first_name prev,
                 middle_name = middle_name prev,
                 birth_date = birth_date prev,
                 gender = gender prev,
                 address = address prev,
                 phone = phone prev,
                 email = email prev,
                 history_id = next_history_id s,
                 history_change_id = Some (cs_id cs),
                 valid_from = created_at prev,
                 valid_to = now\<rparr>])"
proof -
  define cs1 where "cs1 = (case c of
      None \<Rightarrow> create_change_set (Some ''system'') (Some ''API person creation'') s
    | Some c' \<Rightarrow> (c', s))"
  obtain cs s1 where cs1: "cs1 = (cs, s1)" by (cases cs1)
  have s1: "persons s1 = persons s" "person_groups s1 = person_groups s"
    "next_group_id s1 = next_group_id s" "next_person_id s1 = next_person_id s"
    "person_histories s1 = person_histories s" "next_history_id s1 = next_history_id s"
    using cs1 unfolding cs1_def
    by (auto simp: create_change_set_def Let_def split: option.splits)
  have fm: "find_matching_group pd s1 = find_matching_group pd s"
    by (rule find_matching_group_persons) (rule s1)
  from assms obtain gid where gid: "find_matching_group pd s = Inr gid"
    unfolding create_person_def cs1_def [symmetric] cs1
    by (cases "find_matching_group pd s") (simp_all add: fm)
  define res where "res = (case gid of
                 None \<Rightarrow> Inr (create_group s1)
               | Some g \<Rightarrow> if g \<noteq> 0 then get_group g s1 else Inr (create_group s1))"
  from assms gid obtain grp s2 where res: "res = Inr (grp, s2)"
    unfolding create_person_def cs1_def [symmetric] cs1 res_def
    by (cases "case gid of
                 None \<Rightarrow> Inr (create_group s1)
               | Some g \<Rightarrow> if g \<noteq> 0 then get_group g s1 else Inr (create_group s1)")
       (auto simp add: fm)
  have s2: "persons s2 = persons s" "next_person_id s2 = next_person_id s"
    "person_histories s2 = person_histories s" "next_history_id s2 = next_history_id s"
    using res s1 unfolding res_def
    by (auto simp: create_group_def get_group_def split: option.splits if_splits)
  have grp: "gid = Some grp \<and> grp \<noteq> 0 \<and> grp \<in> set (person_groups s)
        \<and> person_groups s2 = person_groups s \<and> next_group_id s2 = next_group_id s
      \<or> (gid = None \<or> gid = Some 0)
        \<and> grp = next_group_id s \<and> person_groups s2 = person_groups s @ [grp]
        \<and> next_group_id s2 = next_group_id s + 1"
    using res s1 unfolding res_def
    by (auto simp: create_group_def get_group_def split: option.splits if_splits)
  from assms obtain p0 s3 where ins: "insert_person grp cs now pd s2 = Inr (p0, s3)"
    by (cases "insert_person grp cs now pd s2")
       (auto simp add: create_person_def cs1_def [symmetric] cs1 fm gid res [unfolded res_def])
  then have keys: "dom pd \<subseteq> set person_attributes"
    by (simp add: insert_person_def split: if_splits)
  have p0: "p0 = \<lparr>group_id = grp,
          last_name = dict_get pd ''last_name'',
          first_name = dict_get pd ''first_name'',
          middle_name = dict_get pd ''middle_name'',
          birth_date = dict_get pd ''birth_date'',
          gender = dict_get pd ''gender'',
          address = dict_get pd ''address'',
          phone = dict_get pd ''phone'',
          email = dict_get pd ''email'',
          person_id = next_person_id s,
          change_id = Some (cs_id cs),
          created_at = now,
          is_current = True\<rparr>"
    and s3: "persons s3 = persons s @ [p0]" "person_groups s3 = person_groups s2"
      "next_group_id s3 = next_group_id s2" "next_person_id s3 = next_person_id s + 1"
      "person_histories s3 = person_histories s" "next_history_id s3 = next_history_id s"
    using ins s2 keys by (auto simp: insert_person_def Let_def)
  have fin: "(Inr (p, s') :: error + person \<times> store) = (case previous_current grp p0 s3 of
                  None \<Rightarrow> Inr (p0, s3)
                | Some prev \<Rightarrow> Inr (p0, retire prev (insert_history grp p0 prev now s3)))"
    using assms
    by (simp add: create_person_def cs1_def [symmetric] cs1 fm gid res [unfolded res_def] ins)
  then have pp: "p = p0"
    by (cases "previous_current grp p0 s3") simp_all
  let ?prev = "first_row (order_by (\<lambda>r. - created_at r)
              (filter (\<lambda>r. group_id r = grp \<and> is_current r \<and> person_id r \<noteq> next_person_id s)
                 (persons s)))"
  have pc: "previous_current grp p0 s3 = ?prev"
    by (simp add: previous_current_def s3 p0)
  have c1: "p = \<lparr>group_id = grp,
          last_name = dict_get pd ''last_name'',
          first_name = dict_get pd ''first_name'',
          middle_name = dict_get pd ''middle_name'',
          birth_date = dict_get pd ''birth_date'',
          gender = dict_get pd ''gender'',
          address = dict_get pd ''address'',
          phone = dict_get pd ''phone'',
          email = dict_get pd ''email'',
          person_id = next_person_id s,
          change_id = Some (cs_id cs),
          created_at = now,
          is_current = True\<rparr>"
    using pp p0 by simp
  have rest: "person_groups s' = person_groups s2 \<and> next_group_id s' = next_group_id s2
      \<and> next_person_id s' = next_person_id s + 1
      \<and> (case previous_current grp p0 s3 of
        None \<Rightarrow> persons s' = persons s @ [p] \<and> person_histories s' = person_histories s
      | Some prev \<Rightarrow>
          persons s' = map (\<lambda>r. if person_id r = person_id prev then r\<lparr>is_current := False\<rparr> else r)
                         (persons s) @ [p]
          \<and> person_histories s' = person_histories s @
               [\<lparr>group_id = grp,
                 last_name = last_name prev,
                 first_name = first_name prev,
                 middle_name = middle_name prev,
                 birth_date = birth_date prev,
                 gender = gender prev,
                 address = address prev,
                 phone = phone prev,
                 email = email prev,
                 history_id = next_history_id s,
                 history_change_id = Some (cs_id cs),
                 valid_from = created_at prev,
                 valid_to = now\<rparr>])"
  proof (cases "previous_current grp p0 s3")
    case None
    with fin have "s' = s3" by simp
    with None s3 pp show ?thesis by simp
  next
    case (Some prev)
    with pc have "first_row (order_by (\<lambda>r. - created_at r)
              (filter (\<lambda>r. group_id r = grp \<and> is_current r \<and> person_id r \<noteq> next_person_id s)
                 (persons s))) = Some prev"
      by simp
    from first_row_order_by [OF this] have ne: "person_id prev \<noteq> next_person_id s"
      by simp
    from Some fin have "s' = retire prev (insert_history grp p0 prev now s3)" by simp
    then have "persons s' = map (\<lambda>r. if person_id r = person_id prev then r\<lparr>is_current := False\<rparr> else r)
                         (persons s) @ [p]"
       "person_histories s' = person_histories s @
               [\<lparr>group_id = grp,
                 last_name = last_name prev,
                 first_name = first_name prev,
                 middle_name = middle_name prev,
                 birth_date = birth_date prev,
                 gender = gender prev,
                 address = address prev,
                 phone = phone prev,
                 email = email prev,
                 history_id = next_history_id s,
                 history_change_id = Some (cs_id cs),
                 valid_from = created_at prev,
                 valid_to = now\<rparr>]"
       "person_groups s' = person_groups s2" "next_group_id s' = next_group_id s2"
       "next_person_id s' = next_person_id s + 1"
      using s3 pp ne by (simp_all add: retire_def insert_history_def Let_def p0)
    with Some show ?thesis by simp
  qed
  from grp gid rest
  have c2: "find_matching_group pd s = Inr (Some grp) \<and> grp \<noteq> 0 \<and> grp \<in> set (person_groups s)
        \<and> person_groups s' = person_groups s \<and> next_group_id s' = next_group_id s
      \<or> (find_matching_group pd s = Inr None \<or> find_matching_group pd s = Inr (Some 0))
        \<and> grp = next_group_id s \<and> person_groups s' = person_groups s @ [grp]
        \<and> next_group_id s' = next_group_id s + 1"
    by auto
  show ?thesis
    apply (rule exI [of _ cs])
    apply (rule exI [of _ grp])
    using keys c1 c2 rest [unfolded pc] by (intro conjI) simp_all
qed

lemma filter_at_most_one:
  "length (filter P xs) \<le> 1 \<Longrightarrow> filter P xs = [] \<or> (\<exists>q. filter P xs = [q])"
  by (cases "filter P xs") (auto simp: Suc_le_eq)

lemma order_by_single [simp]: "order_by k [q] = [q]"
  by (simp add: order_by_def)

lemma order_by_Nil [simp]: "order_by k [] = []"
  by (simp add: order_by_def)

lemma create_person_step:
  assumes dc: "database_constraints s"
    and amo: "\<And>g. length (current_rows g s) \<le> 1"
    and cp: "create_person pd c now s = Inr (p, s')"
  shows "persons s' = map (\<lambda>r. if group_id r = group_id p \<and> is_current r
                               then r\<lparr>is_current := False\<rparr> else r) (persons s) @ [p]
         \<and> is_current p \<and> person_id p = next_person_id s
         \<and> group_id p \<in> set (person_groups s')
         \<and> set (person_groups s) \<subseteq> set (person_groups s')
         \<and> (\<forall>g\<in>set (person_groups s'). 0 < g \<and> g < next_group_id s')
         \<and> 0 < next_group_id s'
         \<and> next_person_id s' = next_person_id s + 1"
proof -
  from create_person_result [OF cp] obtain cs :: change_set and grp where
    p: "p = \<lparr>group_id = grp,
          last_name = dict_get pd ''last_name'',
          first_name = dict_get pd ''first_name'',
          middle_name = dict_get pd ''middle_name'',
          birth_date = dict_get pd ''birth_date'',
          gender = dict_get pd ''gender'',
          address = dict_get pd ''address'',
          phone = dict_get pd ''phone'',
          email = dict_get pd ''email'',
          person_id = next_person_id s,
          change_id = Some (cs_id cs),
          created_at = now,
          is_current = True\<rparr>"
    and g: "find_matching_group pd s = Inr (Some grp) \<and> grp \<noteq> 0 \<and> grp \<in> set (person_groups s)
        \<and> person_groups s' = person_groups s \<and> next_group_id s' = next_group_id s
      \<or> (find_matching_group pd s = Inr None \<or> find_matching_group pd s = Inr (Some 0))
        \<and> grp = next_group_id s \<and> person_groups s' = person_groups s @ [grp]
        \<and> next_group_id s' = next_group_id s + 1"
    and n: "next_person_id s' = next_person_id s + 1"
    and c: "(case first_row (order_by (\<lambda>r. - created_at r)
              (filter (\<lambda>r. group_id r = grp \<and> is_current r \<and> person_id r \<noteq> next_person_id s)
                 (persons s))) of
        None \<Rightarrow> persons s' = persons s @ [p] \<and> person_histories s' = person_histories s
      | Some prev \<Rightarrow>
          persons s' = map (\<lambda>r. if person_id r = person_id prev then r\<lparr>is_current := False\<rparr> else r)
                         (persons s) @ [p]
          \<and> person_histories s' = person_histories s @
               [\<lparr>group_id = grp,
                 last_name = last_name prev,
                 first_name = first_name prev,
                 middle_name = middle_name prev,
                 birth_date = birth_date prev,
                 gender = gender prev,
                 address = address prev,
                 phone = phone prev,
                 email = email prev,
                 history_id = next_history_id s,
                 history_change_id = Some (cs_id cs),
                 valid_from = created_at prev,
                 valid_to = now\<rparr>])"
    by blast
  have gp: "group_id p = grp" "is_current p" "person_id p = next_person_id s"
    by (simp_all add: p)
  have ids: "\<And>r. r \<in> set (persons s) \<Longrightarrow> person_id r \<noteq> next_person_id s"
    using dc by (auto simp: database_constraints_def)
  have F: "filter (\<lambda>r. group_id r = grp \<and> is_current r \<and> person_id r \<noteq> next_person_id s) (persons s)
             = current_rows grp s"
    unfolding current_rows_def using ids by (auto intro: filter_cong)
  have inj: "inj_on person_id (set (persons s))"
    using dc by (simp add: database_constraints_def distinct_map)
  have persons: "persons s' = map (\<lambda>r. if group_id r = grp \<and> is_current r
                               then r\<lparr>is_current := False\<rparr> else r) (persons s) @ [p]"
  proof -
    from amo [of grp] filter_at_most_one [of "\<lambda>r. group_id r = grp \<and> is_current r" "persons s"]
    consider "current_rows grp s = []" | q where "current_rows grp s = [q]"
      unfolding current_rows_def by blast
    then show ?thesis
    proof cases
      case 1
      then have "\<And>r. r \<in> set (persons s) \<Longrightarrow> \<not> (group_id r = grp \<and> is_current r)"
        unfolding current_rows_def by (simp add: filter_empty_conv)
      then have "map (\<lambda>r. if group_id r = grp \<and> is_current r
                               then r\<lparr>is_current := False\<rparr> else r) (persons s) = persons s"
        by (intro map_idI) auto
      with c 1 show ?thesis by (simp add: F first_row_def)
    next
      case 2
      then have "set (current_rows grp s) = {q}" by simp
      then have q: "{r \<in> set (persons s). group_id r = grp \<and> is_current r} = {q}"
        unfolding current_rows_def by simp
      then have qs: "q \<in> set (persons s)" "group_id q = grp" "is_current q" by auto
      have "(person_id r = person_id q) = (group_id r = grp \<and> is_current r)"
        if r: "r \<in> set (persons s)" for r
      proof
        assume "person_id r = person_id q"
        with inj r qs(1) have "r = q" by (meson inj_onD)
        with qs show "group_id r = grp \<and> is_current r" by simp
      next
        assume "group_id r = grp \<and> is_current r"
        with r q have "r = q" by blast
        then show "person_id r = person_id q" by simp
      qed
      then have "map (\<lambda>r. if person_id r = person_id q then r\<lparr>is_current := False\<rparr> else r) (persons s)
           = map (\<lambda>r. if group_id r = grp \<and> is_current r
                               then r\<lparr>is_current := False\<rparr> else r) (persons s)"
        by (intro map_cong) auto
      with c 2 show ?thesis by (simp add: F first_row_def)
    qed
  qed
  have groups: "group_id p \<in> set (person_groups s')" "set (person_groups s) \<subseteq> set (person_groups s')"
    "\<forall>g\<in>set (person_groups s'). 0 < g \<and> g < next_group_id s'" "0 < next_group_id s'"
    using g dc gp(1) by (fastforce simp: database_constraints_def)+
  from persons gp groups n show ?thesis by simp
qed

lemma create_person_current_rows:
  assumes "persons s' = map (\<lambda>r. if group_id r = group_id p \<and> is_current r
                               then r\<lparr>is_current := False\<rparr> else r) (persons s) @ [p]"
    and "is_current p"
  shows "current_rows g s' = (if g = group_id p then [p] else current_rows g s)"
proof (cases "g = group_id p")
  case True
  have "filter (\<lambda>r. group_id r = group_id p \<and> is_current r)
          (map (\<lambda>r. if group_id r = group_id p \<and> is_current r
                               then r\<lparr>is_current := False\<rparr> else r) xs) = []" for xs :: "person list"
    by (induction xs) simp_all
  with assms True show ?thesis
    by (simp add: current_rows_def)
next
  case False
  have "filter (\<lambda>r. group_id r = g \<and> is_current r)
          (map (\<lambda>r. if group_id r = group_id p \<and> is_current r
                               then r\<lparr>is_current := False\<rparr> else r) xs)
        = filter (\<lambda>r. group_id r = g \<and> is_current r) xs" for xs :: "person list"
    using False by (induction xs) simp_all
  with assms False show ?thesis
    by (simp add: current_rows_def)
qed

lemmas run_defs = create_person_def create_change_set_def find_matching_group_def subscript_def
  dict_get_def truthy_def contact_q_def order_by_def first_row_def Let_def gender_male_def
  gender_female_def get_group_def create_group_def insert_person_def previous_current_def
  insert_history_def retire_def empty_store_def snapshot_A_def snapshot_B_def store_A_def store_AB_def
  person_attributes_def

lemma run_A: "create_person snapshot_A None 10 empty_store = Inr (last (persons store_A), store_A)"
  by (simp add: run_defs)

lemma run_B: "create_person snapshot_B None 20 store_A = Inr (last (persons store_AB), store_AB)"
  by (simp add: run_defs)

lemma create_person_preserves:
  assumes dc: "database_constraints s"
    and amo: "\<And>g. length (current_rows g s) \<le> 1"
    and cp: "create_person pd c now s = Inr (p, s')"
  shows "database_constraints s' \<and> (\<forall>g. length (current_rows g s') \<le> 1)"
proof -
  let ?f = "\<lambda>r::person. if group_id r = group_id p \<and> is_current r then r\<lparr>is_current := False\<rparr> else r"
  from create_person_step [OF dc amo cp]
  have persons: "persons s' = map ?f (persons s) @ [p]"
    and p: "is_current p" "person_id p = next_person_id s" "group_id p \<in> set (person_groups s')"
    and groups: "set (person_groups s) \<subseteq> set (person_groups s')"
      "\<forall>g\<in>set (person_groups s'). 0 < g \<and> g < next_group_id s'" "0 < next_group_id s'"
    and n: "next_person_id s' = next_person_id s + 1"
    by simp_all
  have ids: "map person_id (map ?f xs) = map person_id xs" for xs :: "person list"
    by (induction xs) simp_all
  have below: "\<forall>r\<in>set (persons s). person_id r < next_person_id s"
    and fk: "\<forall>r\<in>set (persons s). group_id r \<in> set (person_groups s)"
    and dist: "distinct (map person_id (persons s))"
    using dc by (simp_all add: database_constraints_def)
  from below have "next_person_id s \<notin> person_id ` set (persons s)" by auto
  with dist have 1: "distinct (map person_id (persons s'))"
    by (simp add: persons ids p del: map_map)
  have 2: "\<forall>r\<in>set (persons s'). person_id r < next_person_id s' \<and> group_id r \<in> set (person_groups s')"
  proof
    fix r assume "r \<in> set (persons s')"
    then consider "r = p" | r0 where "r0 \<in> set (persons s)" "r = ?f r0"
      by (auto simp: persons)
    then show "person_id r < next_person_id s' \<and> group_id r \<in> set (person_groups s')"
    proof cases
      case 1
      with p n show ?thesis by simp
    next
      case 2
      then have "person_id r = person_id r0" "group_id r = group_id r0" by simp_all
      with 2(1) below fk groups(1) n show ?thesis by auto
    qed
  qed
  from 1 2 groups have "database_constraints s'"
    by (simp add: database_constraints_def)
  moreover have "length (current_rows g s') \<le> 1" for g
    using create_person_current_rows [OF persons p(1), of g] amo [of g] by simp
  ultimately show ?thesis by blast
qed

lemma apply_calls_preserves:
  assumes "database_constraints s" and "\<forall>g. length (current_rows g s) \<le> 1"
  shows "database_constraints (apply_calls s calls)
         \<and> (\<forall>g. length (current_rows g (apply_calls s calls)) \<le> 1)"
  using assms
proof (induction calls arbitrary: s)
  case Nil
  then show ?case by simp
next
  case (Cons call calls)
  obtain pd c now where call: "call = (pd, c, now)" by (cases call)
  show ?case
  proof (cases "create_person pd c now s")
    case (Inl e)
    with Cons call show ?thesis by simp
  next
    case (Inr ps)
    obtain p s' where ps: "ps = (p, s')" by (cases ps)
    from Cons.prems Inr ps
    have "database_constraints s' \<and> (\<forall>g. length (current_rows g s') \<le> 1)"
      using create_person_preserves by blast
    with Cons.IH [of s'] Inr ps call show ?thesis by simp
  qed
qed

text \<open>
  C1 (at most one current row). Start from a store that satisfies the database
  constraints and has at most one current row in every group (the empty store does).
  After any sequence of calls of \<open>create_person\<close> every group still has at most one
  current row. Moreover a further call that completes appends the new row, flips
  \<open>is_current\<close> on the current row of the new row's group and on no other row, and
  leaves the new row as the only current row of its group.
\<close>

theorem at_most_one_current:
  assumes "database_constraints s0" and "\<forall>g. length (current_rows g s0) \<le> 1"
  shows "(\<forall>g. length (current_rows g (apply_calls s0 calls)) \<le> 1)
       \<and> (\<forall>pd c now p s'.
            create_person pd c now (apply_calls s0 calls) = Inr (p, s') \<longrightarrow>
              persons s' = map (\<lambda>r. if group_id r = group_id p \<and> is_current r
                                     then r\<lparr>is_current := False\<rparr> else r)
                             (persons (apply_calls s0 calls)) @ [p]
              \<and> current_rows (group_id p) s' = [p]
              \<and> (\<forall>g. length (current_rows g s') \<le> 1))"
proof -
  let ?s = "apply_calls s0 calls"
  from apply_calls_preserves [OF assms, of calls]
  have dc: "database_constraints ?s" and amo: "\<And>g. length (current_rows g ?s) \<le> 1"
    by simp_all
  have "persons s' = map (\<lambda>r. if group_id r = group_id p \<and> is_current r
                                     then r\<lparr>is_current := False\<rparr> else r) (persons ?s) @ [p]
        \<and> current_rows (group_id p) s' = [p]
        \<and> (\<forall>g. length (current_rows g s') \<le> 1)"
    if cp: "create_person pd c now ?s = Inr (p, s')" for pd c now p s'
  proof -
    from create_person_step [OF dc amo cp]
    have persons: "persons s' = map (\<lambda>r. if group_id r = group_id p \<and> is_current r
                                     then r\<lparr>is_current := False\<rparr> else r) (persons ?s) @ [p]"
      and cur: "is_current p"
      by simp_all
    from create_person_current_rows [OF persons cur, of "group_id p"]
    have "current_rows (group_id p) s' = [p]" by simp
    with persons create_person_preserves [OF dc amo cp] show ?thesis by simp
  qed
  with amo show ?thesis by blast
qed

theorem at_most_one_current_witness:
  "database_constraints empty_store
   \<and> (\<forall>g. length (current_rows g empty_store) \<le> 1)
   \<and> apply_calls empty_store [(snapshot_A, None, 10)] = store_A
   \<and> create_person snapshot_B None 20 store_A = Inr (last (persons store_AB), store_AB)
   \<and> map is_current (persons store_A) = [True]
   \<and> map is_current (persons store_AB) = [False, True]
   \<and> current_rows (group_id (last (persons store_AB))) store_AB = [last (persons store_AB)]
   \<and> (\<forall>g. length (current_rows g store_AB) \<le> 1)"
proof -
  have dc: "database_constraints empty_store"
    by (simp add: database_constraints_def empty_store_def)
  have amo: "\<forall>g. length (current_rows g empty_store) \<le> 1"
    by (simp add: current_rows_def empty_store_def)
  have a: "apply_calls empty_store [(snapshot_A, None, 10)] = store_A"
    by (simp add: run_A)
  have b: "create_person snapshot_B None 20 store_A = Inr (last (persons store_AB), store_AB)"
    by (rule run_B)
  note step = at_most_one_current [OF dc amo, of "[(snapshot_A, None, 10)]", unfolded a]
  from step b
  have c: "current_rows (group_id (last (persons store_AB))) store_AB = [last (persons store_AB)]"
    and d: "\<forall>g. length (current_rows g store_AB) \<le> 1"
    by blast+
  have e: "map is_current (persons store_A) = [True]"
    by (simp add: store_A_def)
  have f: "map is_current (persons store_AB) = [False, True]"
    by (simp add: store_AB_def)
  show ?thesis
    by (intro conjI) (fact dc amo a b c d e f)+
qed

text \<open>
  C2 (history of a retired row). In a store that satisfies the database constraints, when
  a call of \<open>create_person\<close> completes and retires a row (a row \<open>prev\<close> that was current
  before the call is stored with \<open>is_current\<close> false after it), the call has appended
  exactly one history row; that row carries the group and the eight attributes of
  \<open>prev\<close>, is valid from the creation time of \<open>prev\<close> and valid to the creation time of
  the row the call inserted.
\<close>

theorem history_on_retire:
  assumes dc: "database_constraints s"
    and cp: "create_person pd c now s = Inr (p, s')"
    and prev: "prev \<in> set (persons s)" "is_current prev"
    and retired: "prev\<lparr>is_current := False\<rparr> \<in> set (persons s')"
  shows "\<exists>h. person_histories s' = person_histories s @ [h]
           \<and> group_id h = group_id prev
           \<and> last_name h = last_name prev
           \<and> first_name h = first_name prev
           \<and> middle_name h = middle_name prev
           \<and> birth_date h = birth_date prev
           \<and> gender h = gender prev
           \<and> address h = address prev
           \<and> phone h = phone prev
           \<and> email h = email prev
           \<and> valid_from h = created_at prev
           \<and> valid_to h = created_at p"
proof -
  from create_person_result [OF cp] obtain cs :: change_set and grp where
    p: "p = \<lparr>group_id = grp,
          last_name = dict_get pd ''last_name'',
          first_name = dict_get pd ''first_name'',
          middle_name = dict_get pd ''middle_name'',
          birth_date = dict_get pd ''birth_date'',
          gender = dict_get pd ''gender'',
          address = dict_get pd ''address'',
          phone = dict_get pd ''phone'',
          email = dict_get pd ''email'',
          person_id = next_person_id s,
          change_id = Some (cs_id cs),
          created_at = now,
          is_current = True\<rparr>"
    and c: "(case first_row (order_by (\<lambda>r. - created_at r)
              (filter (\<lambda>r. group_id r = grp \<and> is_current r \<and> person_id r \<noteq> next_person_id s)
                 (persons s))) of
        None \<Rightarrow> persons s' = persons s @ [p] \<and> person_histories s' = person_histories s
      | Some prev \<Rightarrow>
          persons s' = map (\<lambda>r. if person_id r = person_id prev then r\<lparr>is_current := False\<rparr> else r)
                         (persons s) @ [p]
          \<and> person_histories s' = person_histories s @
               [\<lparr>group_id = grp,
                 last_name = last_name prev,
                 first_name = first_name prev,
                 middle_name = middle_name prev,
                 birth_date = birth_date prev,
                 gender = gender prev,
                 address = address prev,
                 phone = phone prev,
                 email = email prev,
                 history_id = next_history_id s,
                 history_change_id = Some (cs_id cs),
                 valid_from = created_at prev,
                 valid_to = now\<rparr>])"
    by blast
  have pcur: "is_current p" "created_at p = now" by (simp_all add: p)
  have inj: "inj_on person_id (set (persons s))"
    using dc by (simp add: database_constraints_def distinct_map)
  have not_old: "prev\<lparr>is_current := False\<rparr> \<notin> set (persons s)"
  proof
    assume "prev\<lparr>is_current := False\<rparr> \<in> set (persons s)"
    moreover have "person_id (prev\<lparr>is_current := False\<rparr>) = person_id prev" by simp
    ultimately have "prev\<lparr>is_current := False\<rparr> = prev"
      using inj prev(1) by (meson inj_onD)
    then have "is_current (prev\<lparr>is_current := False\<rparr>) = is_current prev" by simp
    with prev(2) show False by simp
  qed
  have not_p: "prev\<lparr>is_current := False\<rparr> \<noteq> p"
  proof
    assume "prev\<lparr>is_current := False\<rparr> = p"
    then have "is_current p = is_current (prev\<lparr>is_current := False\<rparr>)" by simp
    with pcur(1) show False by simp
  qed
  let ?sel = "first_row (order_by (\<lambda>r. - created_at r)
              (filter (\<lambda>r. group_id r = grp \<and> is_current r \<and> person_id r \<noteq> next_person_id s)
                 (persons s)))"
  show ?thesis
  proof (cases ?sel)
    case None
    with c have "persons s' = persons s @ [p]" by simp
    with retired not_old not_p show ?thesis by simp
  next
    case (Some q)
    from first_row_order_by [OF Some]
    have q: "q \<in> set (persons s)" "group_id q = grp" by simp_all
    define f where "f = (\<lambda>r::person. if person_id r = person_id q
                              then r\<lparr>is_current := False\<rparr> else r)"
    let ?h = "\<lparr>group_id = grp,
                 last_name = last_name q,
                 first_name = first_name q,
                 middle_name = middle_name q,
                 birth_date = birth_date q,
                 gender = gender q,
                 address = address q,
                 phone = phone q,
                 email = email q,
                 history_id = next_history_id s,
                 history_change_id = Some (cs_id cs),
                 valid_from = created_at q,
                 valid_to = now\<rparr>"
    from c Some have ps: "persons s' = map f (persons s) @ [p]"
      and hs: "person_histories s' = person_histories s @ [?h]"
      unfolding f_def by simp_all
    from retired ps have "prev\<lparr>is_current := False\<rparr> = p
                          \<or> prev\<lparr>is_current := False\<rparr> \<in> f ` set (persons s)"
      by simp
    with not_p have "prev\<lparr>is_current := False\<rparr> \<in> f ` set (persons s)"
      by simp
    then obtain r where r: "r \<in> set (persons s)" "prev\<lparr>is_current := False\<rparr> = f r"
      by (rule imageE)
    have rq: "person_id r = person_id q"
    proof (rule ccontr)
      assume "person_id r \<noteq> person_id q"
      then have "f r = r" by (simp add: f_def)
      with r have "prev\<lparr>is_current := False\<rparr> \<in> set (persons s)" by simp
      with not_old show False by simp
    qed
    then have "f r = r\<lparr>is_current := False\<rparr>" by (simp add: f_def)
    with r(2) have "person_id (prev\<lparr>is_current := False\<rparr>) = person_id (r\<lparr>is_current := False\<rparr>)"
      by simp
    then have "person_id prev = person_id q" using rq by simp
    with inj prev(1) q(1) have pq: "prev = q" by (meson inj_onD)
    show ?thesis
      by (rule exI [of _ ?h]) (simp add: hs pq q pcur)
  qed
qed

theorem history_on_retire_witness:
  "database_constraints store_A
   \<and> create_person snapshot_B None 20 store_A = Inr (last (persons store_AB), store_AB)
   \<and> hd (persons store_A) \<in> set (persons store_A)
   \<and> is_current (hd (persons store_A))
   \<and> (hd (persons store_A))\<lparr>is_current := False\<rparr> \<in> set (persons store_AB)
   \<and> created_at (hd (persons store_A)) = 10
   \<and> created_at (last (persons store_AB)) = 20
   \<and> (\<exists>h. person_histories store_AB = person_histories store_A @ [h]
          \<and> last_name h = last_name (hd (persons store_A))
          \<and> valid_from h = 10 \<and> valid_to h = 20)"
proof -
  have dc: "database_constraints store_A"
    by (simp add: database_constraints_def store_A_def)
  have cp: "create_person snapshot_B None 20 store_A = Inr (last (persons store_AB), store_AB)"
    by (rule run_B)
  have prev: "hd (persons store_A) \<in> set (persons store_A)" "is_current (hd (persons store_A))"
    by (simp_all add: store_A_def)
  have retired: "(hd (persons store_A))\<lparr>is_current := False\<rparr> \<in> set (persons store_AB)"
    by (simp add: store_A_def store_AB_def)
  have t: "created_at (hd (persons store_A)) = 10" "created_at (last (persons store_AB)) = 20"
    by (simp_all add: store_A_def store_AB_def)
  from history_on_retire [OF dc cp prev retired] obtain h
    where "person_histories store_AB = person_histories store_A @ [h]"
      "last_name h = last_name (hd (persons store_A))"
      "valid_from h = created_at (hd (persons store_A))"
      "valid_to h = created_at (last (persons store_AB))"
    by blast
  with t have h: "\<exists>h. person_histories store_AB = person_histories store_A @ [h]
          \<and> last_name h = last_name (hd (persons store_A))
          \<and> valid_from h = 10 \<and> valid_to h = 20"
    by auto
  show ?thesis
    by (intro conjI) (fact dc cp prev retired t h)+
qed

lemma create_person_new_group_returns:
  assumes "find_matching_group pd s = Inr None" and keys: "dom pd \<subseteq> set person_attributes"
  shows "\<exists>p s'. create_person pd c now s = Inr (p, s')"
proof -
  define cs1 where "cs1 = (case c of
      None \<Rightarrow> create_change_set (Some ''system'') (Some ''API person creation'') s
    | Some c' \<Rightarrow> (c', s))"
  obtain cs s1 where cs1: "cs1 = (cs, s1)" by (cases cs1)
  have "persons s1 = persons s"
    using cs1 unfolding cs1_def
    by (auto simp: create_change_set_def Let_def split: option.splits)
  then have "find_matching_group pd s1 = find_matching_group pd s"
    by (rule find_matching_group_persons)
  with assms(1) have fm: "find_matching_group pd s1 = Inr None"
    by simp
  obtain g s2 where cg: "create_group s1 = (g, s2)" by (cases "create_group s1")
  from keys obtain p0 s3 where ins: "insert_person g cs now pd s2 = Inr (p0, s3)"
    by (simp add: insert_person_def Let_def)
  have "create_person pd c now s = (case previous_current g p0 s3 of
                  None \<Rightarrow> Inr (p0, s3)
                | Some prev \<Rightarrow> Inr (p0, retire prev (insert_history g p0 prev now s3)))"
    by (simp add: create_person_def cs1_def [symmetric] cs1 fm cg ins)
  then show ?thesis
    by (cases "previous_current g p0 s3") simp_all
qed

text \<open>
  A dictionary with a key that is not the name of an attribute is no snapshot: the call
  of \<open>create_person\<close> never completes on it, whatever the store. Where the search
  returns and the group exists, the error is the \<^verbatim>\<open>TypeError\<close> of the insertion, after
  which the whole call is rolled back.
\<close>

lemma create_person_unexpected_keyword:
  assumes "k \<in> dom pd" and "k \<notin> set person_attributes"
  shows "create_person pd c now s \<noteq> Inr (p, s')"
proof
  assume "create_person pd c now s = Inr (p, s')"
  from create_person_result [OF this] have "dom pd \<subseteq> set person_attributes"
    by blast
  with assms show False by blast
qed

lemma create_person_unexpected_keyword_examples:
  "create_person (snapshot_A(''is_current'' \<mapsto> Some ''False'')) None 10 empty_store = Inl TypeError"
  "create_person (snapshot_A(''nickname'' \<mapsto> Some ''Anya'')) None 10 empty_store = Inl TypeError"
  "create_person (snapshot_B(''group'' \<mapsto> Some ''7'')) None 20 store_A = Inl TypeError"
  by (simp_all add: run_defs)

text \<open>
  C8 (a new group when nothing matches). In a store that satisfies the database
  constraints, for a snapshot (a dictionary whose keys are names of attributes) for
  which \<open>find_matching_group\<close> finds no group, the call of \<open>create_person\<close> completes:
  it adds one new group, appends one row for that group that is current, created at the
  time of the call and carries the snapshot's attributes, changes no other row and adds
  no history row.
\<close>

theorem new_group_on_no_match:
  assumes dc: "database_constraints s"
    and keys: "dom pd \<subseteq> set person_attributes"
    and none: "find_matching_group pd s = Inr None"
  shows "\<exists>p s'. create_person pd c now s = Inr (p, s')
           \<and> group_id p = next_group_id s
           \<and> group_id p \<notin> set (person_groups s)
           \<and> person_groups s' = person_groups s @ [group_id p]
           \<and> persons s' = persons s @ [p]
           \<and> is_current p
           \<and> created_at p = now
           \<and> last_name p = dict_get pd ''last_name''
           \<and> first_name p = dict_get pd ''first_name''
           \<and> middle_name p = dict_get pd ''middle_name''
           \<and> birth_date p = dict_get pd ''birth_date''
           \<and> gender p = dict_get pd ''gender''
           \<and> address p = dict_get pd ''address''
           \<and> phone p = dict_get pd ''phone''
           \<and> email p = dict_get pd ''email''
           \<and> person_histories s' = person_histories s"
proof -
  from create_person_new_group_returns [OF none keys] obtain p s'
    where cp: "create_person pd c now s = Inr (p, s')"
    by blast
  from create_person_result [OF cp] obtain cs :: change_set and grp where
    p: "p = \<lparr>group_id = grp,
          last_name = dict_get pd ''last_name'',
          first_name = dict_get pd ''first_name'',
          middle_name = dict_get pd ''middle_name'',
          birth_date = dict_get pd ''birth_date'',
          gender = dict_get pd ''gender'',
          address = dict_get pd ''address'',
          phone = dict_get pd ''phone'',
          email = dict_get pd ''email'',
          person_id = next_person_id s,
          change_id = Some (cs_id cs),
          created_at = now,
          is_current = True\<rparr>"
    and g: "find_matching_group pd s = Inr (Some grp) \<and> grp \<noteq> 0 \<and> grp \<in> set (person_groups s)
        \<and> person_groups s' = person_groups s \<and> next_group_id s' = next_group_id s
      \<or> (find_matching_group pd s = Inr None \<or> find_matching_group pd s = Inr (Some 0))
        \<and> grp = next_group_id s \<and> person_groups s' = person_groups s @ [grp]
        \<and> next_group_id s' = next_group_id s + 1"
    and c: "(case first_row (order_by (\<lambda>r. - created_at r)
              (filter (\<lambda>r. group_id r = grp \<and> is_current r \<and> person_id r \<noteq> next_person_id s)
                 (persons s))) of
        None \<Rightarrow> persons s' = persons s @ [p] \<and> person_histories s' = person_histories s
      | Some prev \<Rightarrow>
          persons s' = map (\<lambda>r. if person_id r = person_id prev then r\<lparr>is_current := False\<rparr> else r)
                         (persons s) @ [p]
          \<and> person_histories s' = person_histories s @
               [\<lparr>group_id = grp,
                 last_name = last_name prev,
                 first_name = first_name prev,
                 middle_name = middle_name prev,
                 birth_date = birth_date prev,
                 gender = gender prev,
                 address = address prev,
                 phone = phone prev,
                 email = email prev,
                 history_id = next_history_id s,
                 history_change_id = Some (cs_id cs),
                 valid_from = created_at prev,
                 valid_to = now\<rparr>])"
    by blast
  from g none have grp: "grp = next_group_id s" "person_groups s' = person_groups s @ [grp]"
    by simp_all
  have below: "\<forall>g\<in>set (person_groups s). g < next_group_id s"
    and fk: "\<forall>r\<in>set (persons s). group_id r \<in> set (person_groups s)"
    using dc by (simp_all add: database_constraints_def)
  from below grp have fresh: "grp \<notin> set (person_groups s)" by auto
  with fk have "\<forall>r\<in>set (persons s). group_id r \<noteq> grp" by auto
  then have "filter (\<lambda>r. group_id r = grp \<and> is_current r \<and> person_id r \<noteq> next_person_id s)
                 (persons s) = []"
    by (simp add: filter_empty_conv)
  with c have rows: "persons s' = persons s @ [p]" "person_histories s' = person_histories s"
    by (simp_all add: first_row_def)
  have fields: "group_id p = grp" "is_current p" "created_at p = now"
    "last_name p = dict_get pd ''last_name''"
    "first_name p = dict_get pd ''first_name''"
    "middle_name p = dict_get pd ''middle_name''"
    "birth_date p = dict_get pd ''birth_date''"
    "gender p = dict_get pd ''gender''"
    "address p = dict_get pd ''address''"
    "phone p = dict_get pd ''phone''"
    "email p = dict_get pd ''email''"
    by (simp_all add: p)
  show ?thesis
    apply (rule exI [of _ p])
    apply (rule exI [of _ s'])
    using cp grp fresh rows fields by simp
qed

theorem new_group_on_no_match_witness:
  "database_constraints empty_store
   \<and> dom snapshot_A \<subseteq> set person_attributes
   \<and> find_matching_group snapshot_A empty_store = Inr None
   \<and> (\<exists>p s'. create_person snapshot_A None 10 empty_store = Inr (p, s')
         \<and> person_groups s' = [1] \<and> persons s' = [p] \<and> group_id p = 1 \<and> is_current p
         \<and> last_name p = Some ''Ivanova'' \<and> address p = Some ''123 Main''
         \<and> person_histories s' = [])"
proof -
  have dc: "database_constraints empty_store"
    by (simp add: database_constraints_def empty_store_def)
  have keys: "dom snapshot_A \<subseteq> set person_attributes"
    by (simp add: snapshot_A_def person_attributes_def)
  have none: "find_matching_group snapshot_A empty_store = Inr None"
    by (simp add: example_defs snapshot_A_def empty_store_def)
  from new_group_on_no_match [OF dc keys none, of None 10] obtain p s'
    where "create_person snapshot_A None 10 empty_store = Inr (p, s')"
      "group_id p = next_group_id empty_store"
      "person_groups s' = person_groups empty_store @ [group_id p]"
      "persons s' = persons empty_store @ [p]" "is_current p"
      "last_name p = dict_get snapshot_A ''last_name''"
      "address p = dict_get snapshot_A ''address''"
      "person_histories s' = person_histories empty_store"
    by blast
  then have "create_person snapshot_A None 10 empty_store = Inr (p, s')
         \<and> person_groups s' = [1] \<and> persons s' = [p] \<and> group_id p = 1 \<and> is_current p
         \<and> last_name p = Some ''Ivanova'' \<and> address p = Some ''123 Main''
         \<and> person_histories s' = []"
    by (simp add: empty_store_def snapshot_A_def dict_get_def)
  then have ex: "\<exists>p s'. create_person snapshot_A None 10 empty_store = Inr (p, s')
         \<and> person_groups s' = [1] \<and> persons s' = [p] \<and> group_id p = 1 \<and> is_current p
         \<and> last_name p = Some ''Ivanova'' \<and> address p = Some ''123 Main''
         \<and> person_histories s' = []"
    by blast
  show ?thesis
    by (intro conjI) (fact dc keys none ex)+
qed

section \<open>The temporal query\<close>

lemma first_row_order_by_cases:
  "(xs = [] \<and> first_row (order_by k xs) = None)
   \<or> (\<exists>x\<in>set xs. (\<forall>y\<in>set xs. k x \<le> k y) \<and> first_row (order_by k xs) = Some x)"
proof (cases "first_row (order_by k xs)")
  case None
  then have "xs = []" by (simp only: first_row_order_by_None)
  with None show ?thesis by simp
next
  case (Some x)
  with first_row_order_by [OF Some] show ?thesis by blast
qed

text \<open>
  C5 (state at a time). \<open>get_person_as_of\<close> never raises. When the group has a current
  row created no later than the timestamp, the answer is the attributes of such a row,
  the one created last. Otherwise, when a history row of the group has the timestamp in
  its half-open interval from \<open>valid_from\<close> (included) to \<open>valid_to\<close> (excluded), the
  answer is the attributes of such a row, the one with the largest \<open>valid_from\<close>.
  Otherwise the answer is none: so it is for a timestamp before the first row and for a
  group that does not exist.
\<close>

theorem state_as_of:
  "((\<exists>r\<in>set (persons s). group_id r = g \<and> is_current r \<and> created_at r \<le> t) \<longrightarrow>
      (\<exists>r\<in>set (persons s). group_id r = g \<and> is_current r \<and> created_at r \<le> t
         \<and> (\<forall>r'\<in>set (persons s). group_id r' = g \<and> is_current r' \<and> created_at r' \<le> t
               \<longrightarrow> created_at r' \<le> created_at r)
         \<and> get_person_as_of g t s =
             Some \<lparr>group_id = group_id r, last_name = last_name r, first_name = first_name r,
                   middle_name = middle_name r, birth_date = birth_date r, gender = gender r,
                   address = address r, phone = phone r, email = email r\<rparr>))
   \<and> (\<not> (\<exists>r\<in>set (persons s). group_id r = g \<and> is_current r \<and> created_at r \<le> t) \<longrightarrow>
       (\<exists>h\<in>set (person_histories s). group_id h = g \<and> valid_from h \<le> t \<and> t < valid_to h) \<longrightarrow>
      (\<exists>h\<in>set (person_histories s). group_id h = g \<and> valid_from h \<le> t \<and> t < valid_to h
         \<and> (\<forall>h'\<in>set (person_histories s). group_id h' = g \<and> valid_from h' \<le> t \<and> t < valid_to h'
               \<longrightarrow> valid_from h' \<le> valid_from h)
         \<and> get_person_as_of g t s =
             Some \<lparr>group_id = group_id h, last_name = last_name h, first_name = first_name h,
                   middle_name = middle_name h, birth_date = birth_date h, gender = gender h,
                   address = address h, phone = phone h, email = email h\<rparr>))
   \<and> (\<not> (\<exists>r\<in>set (persons s). group_id r = g \<and> is_current r \<and> created_at r \<le> t) \<longrightarrow>
       \<not> (\<exists>h\<in>set (person_histories s). group_id h = g \<and> valid_from h \<le> t \<and> t < valid_to h) \<longrightarrow>
       get_person_as_of g t s = None)"
proof -
  let ?cur = "filter (\<lambda>r. group_id r = g \<and> is_current r \<and> created_at r \<le> t) (persons s)"
  let ?hist = "filter (\<lambda>h. group_id h = g \<and> valid_from h \<le> t \<and> valid_to h > t) (person_histories s)"
  let ?kc = "\<lambda>r::person. - created_at r"
  let ?kh = "\<lambda>h::person_history. - valid_from h"
  have cur_empty: "?cur = [] \<longleftrightarrow>
      \<not> (\<exists>r\<in>set (persons s). group_id r = g \<and> is_current r \<and> created_at r \<le> t)"
    by (simp add: filter_empty_conv)
  have hist_empty: "?hist = [] \<longleftrightarrow>
      \<not> (\<exists>h\<in>set (person_histories s). group_id h = g \<and> valid_from h \<le> t \<and> t < valid_to h)"
    by (simp add: filter_empty_conv)
  have 1: "\<exists>r\<in>set (persons s). group_id r = g \<and> is_current r \<and> created_at r \<le> t
         \<and> (\<forall>r'\<in>set (persons s). group_id r' = g \<and> is_current r' \<and> created_at r' \<le> t
               \<longrightarrow> created_at r' \<le> created_at r)
         \<and> get_person_as_of g t s =
             Some \<lparr>group_id = group_id r, last_name = last_name r, first_name = first_name r,
                   middle_name = middle_name r, birth_date = birth_date r, gender = gender r,
                   address = address r, phone = phone r, email = email r\<rparr>"
    if "\<exists>r\<in>set (persons s). group_id r = g \<and> is_current r \<and> created_at r \<le> t"
  proof -
    from that cur_empty have "?cur \<noteq> []" by simp
    with first_row_order_by_cases [of ?cur ?kc]
    obtain r where r: "r \<in> set ?cur" "\<forall>y\<in>set ?cur. ?kc r \<le> ?kc y"
      "first_row (order_by ?kc ?cur) = Some r"
      by blast
    from r(3) have "get_person_as_of g t s =
             Some \<lparr>group_id = group_id r, last_name = last_name r, first_name = first_name r,
                   middle_name = middle_name r, birth_date = birth_date r, gender = gender r,
                   address = address r, phone = phone r, email = email r\<rparr>"
      by (simp add: get_person_as_of_def)
    with r(1,2) show ?thesis
      by (intro bexI [of _ r]) simp_all
  qed
  have 2: "\<exists>h\<in>set (person_histories s). group_id h = g \<and> valid_from h \<le> t \<and> t < valid_to h
         \<and> (\<forall>h'\<in>set (person_histories s). group_id h' = g \<and> valid_from h' \<le> t \<and> t < valid_to h'
               \<longrightarrow> valid_from h' \<le> valid_from h)
         \<and> get_person_as_of g t s =
             Some \<lparr>group_id = group_id h, last_name = last_name h, first_name = first_name h,
                   middle_name = middle_name h, birth_date = birth_date h, gender = gender h,
                   address = address h, phone = phone h, email = email h\<rparr>"
    if nc: "\<not> (\<exists>r\<in>set (persons s). group_id r = g \<and> is_current r \<and> created_at r \<le> t)"
      and "\<exists>h\<in>set (person_histories s). group_id h = g \<and> valid_from h \<le> t \<and> t < valid_to h"
  proof -
    from nc cur_empty have c: "?cur = []" by simp
    from that(2) hist_empty have "?hist \<noteq> []" by simp
    with first_row_order_by_cases [of ?hist ?kh]
    obtain h where h: "h \<in> set ?hist" "\<forall>y\<in>set ?hist. ?kh h \<le> ?kh y"
      "first_row (order_by ?kh ?hist) = Some h"
      by blast
    from h(3) c have "get_person_as_of g t s =
             Some \<lparr>group_id = group_id h, last_name = last_name h, first_name = first_name h,
                   middle_name = middle_name h, birth_date = birth_date h, gender = gender h,
                   address = address h, phone = phone h, email = email h\<rparr>"
      by (simp add: get_person_as_of_def first_row_def)
    with h(1,2) show ?thesis
      by (intro bexI [of _ h]) simp_all
  qed
  have 3: "get_person_as_of g t s = None"
    if nc: "\<not> (\<exists>r\<in>set (persons s). group_id r = g \<and> is_current r \<and> created_at r \<le> t)"
      and nh: "\<not> (\<exists>h\<in>set (person_histories s). group_id h = g \<and> valid_from h \<le> t \<and> t < valid_to h)"
  proof -
    from nc cur_empty have c: "?cur = []" by simp
    from nh hist_empty have h: "?hist = []" by simp
    from c h show ?thesis
      by (simp add: get_person_as_of_def first_row_def)
  qed
  from 1 2 3 show ?thesis by blast
qed

theorem state_as_of_witness:
  "get_person_as_of 1 35 example_store =
     Some \<lparr>group_id = 1, last_name = Some ''Ivanova'', first_name = Some ''Anna'',
           middle_name = None, birth_date = Some ''1990-01-01'', gender = Some gender_female,
           address = Some ''123 Main'', phone = Some ''111'', email = None\<rparr>
   \<and> get_person_as_of 1 30 example_store = get_person_as_of 1 35 example_store
   \<and> get_person_as_of 1 15 example_store =
     Some \<lparr>group_id = 1, last_name = Some ''Ivanova'', first_name = Some ''Anna'',
           middle_name = None, birth_date = Some ''1990-01-01'', gender = Some gender_female,
           address = Some ''123 Main'', phone = None, email = None\<rparr>
   \<and> get_person_as_of 1 5 example_store = None
   \<and> get_person_as_of 99 100 example_store = None"
proof -
  have a: "get_person_as_of 1 35 example_store =
     Some \<lparr>group_id = 1, last_name = Some ''Ivanova'', first_name = Some ''Anna'',
           middle_name = None, birth_date = Some ''1990-01-01'', gender = Some gender_female,
           address = Some ''123 Main'', phone = Some ''111'', email = None\<rparr>"
    by (simp add: get_person_as_of_def order_by_def first_row_def example_store_def)
  have b: "get_person_as_of 1 30 example_store = get_person_as_of 1 35 example_store"
    by (simp add: get_person_as_of_def order_by_def first_row_def example_store_def)
  have c: "get_person_as_of 1 15 example_store =
     Some \<lparr>group_id = 1, last_name = Some ''Ivanova'', first_name = Some ''Anna'',
           middle_name = None, birth_date = Some ''1990-01-01'', gender = Some gender_female,
           address = Some ''123 Main'', phone = None, email = None\<rparr>"
    by (simp add: get_person_as_of_def order_by_def first_row_def example_store_def)
  have nc: "\<not> (\<exists>r\<in>set (persons example_store). group_id r = 1 \<and> is_current r \<and> created_at r \<le> 5)"
    by (simp add: example_store_def)
  have nh: "\<not> (\<exists>h\<in>set (person_histories example_store).
                group_id h = 1 \<and> valid_from h \<le> 5 \<and> 5 < valid_to h)"
    by (simp add: example_store_def)
  from state_as_of [of example_store 1 5] nc nh
  have d: "get_person_as_of 1 5 example_store = None"
    by blast
  have nc': "\<not> (\<exists>r\<in>set (persons example_store). group_id r = 99 \<and> is_current r \<and> created_at r \<le> 100)"
    by (simp add: example_store_def)
  have nh': "\<not> (\<exists>h\<in>set (person_histories example_store).
                group_id h = 99 \<and> valid_from h \<le> 100 \<and> 100 < valid_to h)"
    by (simp add: example_store_def)
  from state_as_of [of example_store 99 100] nc' nh'
  have e: "get_person_as_of 99 100 example_store = None"
    by blast
  show ?thesis
    by (intro conjI) (fact a b c d e)+
qed

end
